theory Spec2Isabelle
  imports Complex_Main "HOL-Library.Word"
begin

section \<open>Camera and depth camera sensors of ign-sensors\<close>

text \<open>
  A shallow embedding of \<^verbatim>\<open>src/CameraSensor.cc\<close> and \<^verbatim>\<open>src/DepthCameraSensor.cc\<close>.
  The private data classes are records, the rendering engine, the transport layer, the
  file system and the console are one explicit \<open>world\<close> record that every operation
  takes and returns, and a null pointer dereference or an out-of-bounds access is a
  \<open>fault\<close> value. The per-sensor mutex is not modelled: one call runs at a time.
\<close>

subsection \<open>Machine values\<close>

type_synonym uchar = "8 word"
type_synonym uint = "32 word"
type_synonym uint64 = "64 word"

text \<open>
  A \<^verbatim>\<open>float\<close> or \<^verbatim>\<open>double\<close> value. Finite values carry the real number they denote;
  comparisons follow IEEE 754 (every comparison with a NaN is false).
\<close>

datatype float = NegInf | Finite real | PosInf | NaN

fun float_less :: "float \<Rightarrow> float \<Rightarrow> bool" where
  "float_less NaN b = False"
| "float_less a NaN = False"
| "float_less PosInf b = False"
| "float_less a NegInf = False"
| "float_less NegInf b = True"
| "float_less a PosInf = True"
| "float_less (Finite x) (Finite y) = (x < y)"

fun float_eq :: "float \<Rightarrow> float \<Rightarrow> bool" where
  "float_eq NaN b = False"
| "float_eq a NaN = False"
| "float_eq (Finite x) (Finite y) = (x = y)"
| "float_eq a b = (a = b)"

definition float_le :: "float \<Rightarrow> float \<Rightarrow> bool" where
  "float_le a b = (float_less a b \<or> float_eq a b)"

definition float_ge :: "float \<Rightarrow> float \<Rightarrow> bool" where
  "float_ge a b = float_le b a"

definition float_gt :: "float \<Rightarrow> float \<Rightarrow> bool" where
  "float_gt a b = float_less b a"

text \<open>\<^verbatim>\<open>std::isinf\<close>.\<close>

fun isinf :: "float \<Rightarrow> bool" where
  "isinf PosInf = True"
| "isinf NegInf = True"
| "isinf a = False"

text \<open>
  Rounding a real number to a binary floating-point format, to nearest with ties to
  even, as IEEE 754 arithmetic does. \<open>hi\<close> is 2 to the precision, \<open>qmin\<close> the exponent
  of the least subnormal and \<open>qmax\<close> that of the last place of the largest finite value.
  The magnitude is scaled by powers of 2 into the range from \<open>hi / 2\<close> to \<open>hi\<close> (less for
  a subnormal), rounded to an integer and scaled back; beyond \<open>qmax\<close> it is an infinity.
\<close>

definition round_even :: "real \<Rightarrow> int" where
  "round_even m =
     (let f = \<lfloor>m\<rfloor>; d = m - of_int f
      in if d < 1 / 2 then f
         else if 1 / 2 < d then f + 1
         else if even f then f else f + 1)"

function scale_down :: "real \<Rightarrow> real \<Rightarrow> int \<Rightarrow> real \<times> int" where
  "scale_down hi m q = (if hi \<le> m \<and> 2 \<le> m then scale_down hi (m / 2) (q + 1) else (m, q))"
  by pat_completeness auto
termination
proof (relation "measure (\<lambda>(hi, m, q). nat \<lfloor>m\<rfloor>)")
  show "wf (measure (\<lambda>(hi, m, q). nat \<lfloor>m\<rfloor>))" by simp
next
  fix hi m :: real and q :: int
  assume a: "hi \<le> m \<and> 2 \<le> m"
  then have "m / 2 \<le> m - 1" by simp
  then have "\<lfloor>m / 2\<rfloor> \<le> \<lfloor>m\<rfloor> - 1" by linarith
  moreover have "1 \<le> \<lfloor>m\<rfloor>" using a by linarith
  ultimately show "((hi, m / 2, q + 1), (hi, m, q)) \<in> measure (\<lambda>(hi, m, q). nat \<lfloor>m\<rfloor>)"
    by simp
qed

function scale_up :: "real \<Rightarrow> int \<Rightarrow> real \<Rightarrow> int \<Rightarrow> real \<times> int" where
  "scale_up lo qmin m q =
     (if m < lo \<and> qmin < q then scale_up lo qmin (m * 2) (q - 1) else (m, q))"
  by pat_completeness auto
termination
  by (relation "measure (\<lambda>(lo, qmin, m, q). nat (q - qmin))") auto

declare scale_down.simps [simp del] scale_up.simps [simp del]

definition times_pow2 :: "int \<Rightarrow> int \<Rightarrow> real" where
  "times_pow2 r q = (if 0 \<le> q then of_int r * 2 ^ nat q else of_int r / 2 ^ nat (- q))"

definition round_to :: "int \<Rightarrow> int \<Rightarrow> int \<Rightarrow> real \<Rightarrow> float" where
  "round_to hi qmin qmax x =
     (if x = 0 then Finite 0
      else
        let (m0, q0) = scale_down (of_int hi) \<bar>x\<bar> 0;
            (m, q) = scale_up (of_int hi / 2) qmin m0 q0;
            r = round_even m;
            (r', q') = (if r = hi then (hi div 2, q + 1) else (r, q))
        in if qmax < q' then (if 0 < x then PosInf else NegInf)
           else Finite (sgn x * times_pow2 r' q'))"

text \<open>The values of \<^verbatim>\<open>float\<close> (24 bits of precision) and of \<^verbatim>\<open>double\<close> (53 bits).\<close>

definition binary32 :: "real \<Rightarrow> float" where
  "binary32 = round_to 16777216 (- 149) 104"

definition binary64 :: "real \<Rightarrow> float" where
  "binary64 = round_to 9007199254740992 (- 1074) 971"

text \<open>The conversion of a \<^verbatim>\<open>double\<close> to \<^verbatim>\<open>float\<close>, as in \<^verbatim>\<open>float far = this->FarClip()\<close>.\<close>

fun narrow :: "float \<Rightarrow> float" where
  "narrow (Finite x) = binary32 x"
| "narrow a = a"

text \<open>
  Division, product and difference with the IEEE rules for zero, the infinities and
  NaN, the finite results rounded by \<open>rnd\<close>. Zero has no sign here: the sensors divide
  by a zero only where it is positive.
\<close>

fun ieee_div :: "(real \<Rightarrow> float) \<Rightarrow> float \<Rightarrow> float \<Rightarrow> float" where
  "ieee_div rnd (Finite x) (Finite y) =
     (if y = 0 then (if x = 0 then NaN else if 0 < x then PosInf else NegInf)
      else rnd (x / y))"
| "ieee_div rnd (Finite x) PosInf = Finite 0"
| "ieee_div rnd (Finite x) NegInf = Finite 0"
| "ieee_div rnd a b = NaN"

fun ieee_mul :: "(real \<Rightarrow> float) \<Rightarrow> float \<Rightarrow> float \<Rightarrow> float" where
  "ieee_mul rnd (Finite x) (Finite y) = rnd (x * y)"
| "ieee_mul rnd NaN b = NaN"
| "ieee_mul rnd a NaN = NaN"
| "ieee_mul rnd (Finite x) PosInf = (if x = 0 then NaN else if 0 < x then PosInf else NegInf)"
| "ieee_mul rnd (Finite x) NegInf = (if x = 0 then NaN else if 0 < x then NegInf else PosInf)"
| "ieee_mul rnd PosInf (Finite y) = (if y = 0 then NaN else if 0 < y then PosInf else NegInf)"
| "ieee_mul rnd NegInf (Finite y) = (if y = 0 then NaN else if 0 < y then NegInf else PosInf)"
| "ieee_mul rnd PosInf PosInf = PosInf"
| "ieee_mul rnd NegInf NegInf = PosInf"
| "ieee_mul rnd PosInf NegInf = NegInf"
| "ieee_mul rnd NegInf PosInf = NegInf"

fun ieee_sub :: "(real \<Rightarrow> float) \<Rightarrow> float \<Rightarrow> float \<Rightarrow> float" where
  "ieee_sub rnd (Finite x) (Finite y) = rnd (x - y)"
| "ieee_sub rnd NaN b = NaN"
| "ieee_sub rnd a NaN = NaN"
| "ieee_sub rnd PosInf PosInf = NaN"
| "ieee_sub rnd NegInf NegInf = NaN"
| "ieee_sub rnd PosInf b = PosInf"
| "ieee_sub rnd NegInf b = NegInf"
| "ieee_sub rnd a PosInf = NegInf"
| "ieee_sub rnd a NegInf = PosInf"

text \<open>
  What the image loop of the depth sensor computes with: \<open>fdiv\<close> is its \<^verbatim>\<open>float\<close>
  division, \<open>dmul\<close> and \<open>dsub\<close> its \<^verbatim>\<open>double\<close> product and difference, \<open>to_uchar\<close> the
  conversion of a \<^verbatim>\<open>double\<close> to \<^verbatim>\<open>unsigned char\<close>. C++ leaves the conversion undefined
  when the truncated value is not in the range from 0 to 255, so these four are a
  parameter of the model and what is proved of the loop holds for each choice.
\<close>

record arith =
  fdiv :: "float \<Rightarrow> float \<Rightarrow> float"
  dmul :: "float \<Rightarrow> float \<Rightarrow> float"
  dsub :: "float \<Rightarrow> float \<Rightarrow> float"
  to_uchar :: "float \<Rightarrow> uchar"

text \<open>
  The IEEE 754 instance. The conversion truncates towards zero where C++ defines it;
  elsewhere the instance yields 0, and no example below converts such a value.
\<close>

fun trunc_uchar :: "float \<Rightarrow> uchar" where
  "trunc_uchar (Finite x) =
     (if - 1 < x \<and> x < 256 then word_of_int (if 0 \<le> x then \<lfloor>x\<rfloor> else \<lceil>x\<rceil>) else 0)"
| "trunc_uchar a = 0"

definition ieee_arith :: arith where
  "ieee_arith = \<lparr>fdiv = ieee_div binary32, dmul = ieee_mul binary64, dsub = ieee_sub binary64,
                  to_uchar = trunc_uchar\<rparr>"

text \<open>\<^verbatim>\<open>std::to_string\<close> of an unsigned integer: its decimal digits.\<close>

definition digit_char :: "nat \<Rightarrow> char" where
  "digit_char d = ''0123456789'' ! d"

fun to_string :: "nat \<Rightarrow> string" where
  "to_string n = (if n < 10 then [digit_char n] else to_string (n div 10) @ [digit_char (n mod 10)])"

declare to_string.simps [simp del]

subsection \<open>The world outside the sensor\<close>

text \<open>
  How a call can end other than by returning: a null (or otherwise invalid) pointer is
  dereferenced, memory outside a buffer is accessed, or a C++ exception leaves the call.
\<close>

datatype fault = NullDereference | OutOfBounds | Exception

text \<open>Pixel formats: \<^verbatim>\<open>common::Image::PixelFormatType\<close> and the engine's \<^verbatim>\<open>PixelFormat\<close>.\<close>

datatype PixelFormatType = UNKNOWN_PIXEL_FORMAT | L_INT8 | RGB_INT8 | R_FLOAT32

datatype render_format = PF_UNKNOWN | PF_R8G8B8 | PF_FLOAT32_R

text \<open>A scene pointer and a camera pointer: \<open>None\<close> is the null pointer.\<close>

type_synonym ScenePtr = "nat option"
type_synonym CameraPtr = "nat option"

text \<open>A camera object of the rendering engine, with the properties the sensors set.\<close>

record camera_obj =
  cam_scene :: nat
  cam_name :: string
  ImageWidth :: uint
  ImageHeight :: uint
  NearClipPlane :: float
  FarClipPlane :: float
  AntiAliasing :: nat
  AspectRatio :: float
  HFOV :: float
  ImageFormat :: render_format
  depth_texture :: bool
  noise_model :: bool

text \<open>An image handed to \<^verbatim>\<open>common::Image::SavePNG\<close>.\<close>

record png_image =
  png_data :: "uchar list"
  png_width :: uint
  png_height :: uint
  png_format :: PixelFormatType

datatype payload = Bytes "uchar list" | Floats "float list"

record Image_msg =
  msg_width :: uint
  msg_height :: uint
  msg_step :: uint
  msg_pixel_format :: PixelFormatType
  msg_pixel_format_type :: PixelFormatType
  msg_sec :: int
  msg_nsec :: int
  msg_frame_id :: "string list"
  msg_data :: payload

datatype DistortionModelType = PLUMB_BOB | RATIONAL_POLYNOMIAL | EQUIDISTANT

record CameraInfo =
  distortion_model :: DistortionModelType
  distortion_k :: "real list"
  intrinsics_k :: "real list"
  projection_p :: "real list"
  rectification_matrix :: "real list"
  info_frame_id :: "string list"
  info_width :: uint
  info_height :: uint
  info_sec :: int
  info_nsec :: int

text \<open>
  The world: the engine's cameras (a camera pointer is an index into \<open>cameras\<close>), the
  children of each scene's root visual, what the engine renders, the file system (which
  directories exist, whether a directory can be created, whether a PNG file can be
  written), the messages published so far and the console. The engine is taken to
  create a camera whenever a scene is asked for one: the camera starts as \<open>new_camera\<close>
  and is appended to \<open>cameras\<close>. A camera that a sensor lets go of stays in the world,
  since nothing in the sources removes it from its scene.
\<close>

record world =
  cameras :: "camera_obj list"
  new_camera :: camera_obj
  root_children :: "(nat \<times> nat) list"
  capture :: "nat \<Rightarrow> uchar list"
  depth_frame :: "nat \<Rightarrow> float list \<times> string"
  directories :: "string list"
  can_create :: "string \<Rightarrow> bool"
  can_write :: "string \<Rightarrow> bool"
  files :: "(string \<times> png_image) list"
  published :: "Image_msg list"
  info_published :: "CameraInfo list"
  console :: "string list"

definition isDirectory :: "world \<Rightarrow> string \<Rightarrow> bool" where
  "isDirectory w p = (p \<in> set (directories w))"

definition createDirectories :: "world \<Rightarrow> string \<Rightarrow> bool \<times> world" where
  "createDirectories w p =
     (if can_create w p then (True, w\<lparr>directories := directories w @ [p]\<rparr>) else (False, w))"

definition joinPaths :: "string \<Rightarrow> string \<Rightarrow> string" where
  "joinPaths a b = a @ ''/'' @ b"

text \<open>\<^verbatim>\<open>Image::SetFromData\<close> followed by \<^verbatim>\<open>Image::SavePNG\<close>: the file appears when the write succeeds.\<close>

definition SavePNG :: "world \<Rightarrow> png_image \<Rightarrow> string \<Rightarrow> world" where
  "SavePNG w img p = (if can_write w p then w\<lparr>files := files w @ [(p, img)]\<rparr> else w)"

definition ignerr :: "world \<Rightarrow> string \<Rightarrow> world" where
  "ignerr w m = w\<lparr>console := console w @ [m]\<rparr>"

definition ignwarn :: "world \<Rightarrow> string \<Rightarrow> world" where
  "ignwarn w m = w\<lparr>console := console w @ [m]\<rparr>"

text \<open>The camera a pointer refers to; a pointer to no camera of the world is invalid.\<close>

definition camera_at :: "world \<Rightarrow> nat \<Rightarrow> fault + camera_obj" where
  "camera_at w h = (if h < length (cameras w) then Inr (cameras w ! h) else Inl NullDereference)"

text \<open>\<^verbatim>\<open>rendering::PixelUtil::BytesPerPixel\<close> and \<^verbatim>\<open>Camera::CreateImage\<close> of the engine.\<close>

fun BytesPerPixel :: "render_format \<Rightarrow> uint" where
  "BytesPerPixel PF_R8G8B8 = 3"
| "BytesPerPixel PF_FLOAT32_R = 4"
| "BytesPerPixel PF_UNKNOWN = 0"

definition CreateImage :: "camera_obj \<Rightarrow> uchar list" where
  "CreateImage cam =
     replicate (unat (ImageWidth cam) * unat (ImageHeight cam) * unat (BytesPerPixel (ImageFormat cam))) 0"

text \<open>\<^verbatim>\<open>common::Image::ConvertPixelFormat\<close>, on the format names the sensors use.\<close>

definition ConvertPixelFormat :: "string \<Rightarrow> PixelFormatType" where
  "ConvertPixelFormat f =
     (if f = ''L_INT8'' then L_INT8
      else if f = ''RGB_INT8'' then RGB_INT8
      else if f = ''R_FLOAT32'' then R_FLOAT32
      else UNKNOWN_PIXEL_FORMAT)"

text \<open>
  Firing \<open>imageEvent\<close>: the callbacks run in the order of their registration, and an
  exception thrown by one of them leaves the call.
\<close>

fun signal :: "(Image_msg \<Rightarrow> bool) list \<Rightarrow> Image_msg \<Rightarrow> fault + unit" where
  "signal [] m = Inr ()"
| "signal (cb # cbs) m = (if cb m then Inl Exception else signal cbs m)"

text \<open>
  Modelled from the spec: the macro \<^verbatim>\<open>IGN_PI\<close> of \<^verbatim>\<open>ignition/math/Helpers.hh\<close>, a header
  that is not among the sources; the spec gives the upper bound of the field of view as
  two times the number pi. No \<^verbatim>\<open>double\<close> lies between the constants of the program
  (the doubles nearest to 0.01 and to two times pi) and these numbers, so on the values
  a \<^verbatim>\<open>double\<close> can take the comparisons agree.
\<close>

definition IGN_PI :: real where
  "IGN_PI = pi"


subsection \<open>Configuration and sensor state\<close>

datatype NoiseType = NONE | GAUSSIAN | GAUSSIAN_QUANTIZED

datatype SensorNoiseType = NO_NOISE | CAMERA_NOISE

text \<open>\<^verbatim>\<open>sdf::Camera\<close>, the configuration of the colour camera, by its accessors.\<close>

record sdf_Camera =
  sdf_ImageWidth :: uint
  sdf_ImageHeight :: uint
  sdf_DistortionK1 :: real
  sdf_DistortionK2 :: real
  sdf_DistortionK3 :: real
  sdf_DistortionP1 :: real
  sdf_DistortionP2 :: real
  sdf_LensIntrinsicsFx :: real
  sdf_LensIntrinsicsFy :: real
  sdf_LensIntrinsicsCx :: real
  sdf_LensIntrinsicsCy :: real
  sdf_NearClip :: float
  sdf_FarClip :: float
  sdf_ImageNoise :: NoiseType
  sdf_HorizontalFov :: float
  sdf_PixelFormat :: PixelFormatType
  sdf_SaveFrames :: bool
  sdf_SaveFramesPath :: string

text \<open>
  The \<^verbatim>\<open><camera>\<close> element the depth camera reads: \<^verbatim>\<open><image>\<close> (width and height are
  \<^verbatim>\<open>int\<close>), the optional \<^verbatim>\<open><clip>\<close>, \<^verbatim>\<open><horizontal_fov>\<close> (read with the default 0),
  whether \<^verbatim>\<open><distortion>\<close> is present, and the optional \<^verbatim>\<open><save>\<close>.
\<close>

record sdf_image =
  elem_width :: uint
  elem_height :: uint
  elem_format :: string

record sdf_clip =
  clip_far :: float
  clip_near :: float

record sdf_save =
  save_enabled :: bool
  save_path :: string

record sdf_camera_elem =
  elem_image :: "sdf_image option"
  elem_clip :: "sdf_clip option"
  elem_horizontal_fov :: "float option"
  elem_distortion :: bool
  elem_save :: "sdf_save option"

text \<open>
  The fields the two private classes have in common, with the base classes' \<^verbatim>\<open>Name()\<close>.
  A callback of \<open>imageEvent\<close> is the predicate "throws on this message".
\<close>

record SensorPrivate =
  Name :: string
  initialized :: bool
  scene :: ScenePtr
  image :: "uchar list"
  imageEvent :: "(Image_msg \<Rightarrow> bool) list"
  saveImage :: bool
  saveImagePath :: string
  saveImagePrefix :: string
  saveImageCounter :: uint64

record CameraSensorPrivate = SensorPrivate +
  camera :: CameraPtr
  noises :: "SensorNoiseType \<rightharpoonup> nat"
  sdfSensor :: "sdf_Camera option"
  infoMsg :: CameraInfo

record DepthCameraSensorPrivate = SensorPrivate +
  depthCamera :: CameraPtr
  depthBuffer :: "float list option"
  near :: float
  connection :: CameraPtr
  SDF_camera :: "sdf_camera_elem option"

subsection \<open>Saving frames\<close>

text \<open>
  The first statement of both \<^verbatim>\<open>SaveImage\<close> functions: the directory is created when it
  does not exist yet; the flag tells whether the function goes on.
\<close>

definition ensure_directory :: "world \<Rightarrow> string \<Rightarrow> bool \<times> world" where
  "ensure_directory w p = (if \<not> isDirectory w p then createDirectories w p else (True, w))"

text \<open>\<^verbatim>\<open>CameraSensorPrivate::SaveImage\<close> (CameraSensor.cc, lines 448 to 469).\<close>

definition SaveImage ::
  "CameraSensorPrivate \<Rightarrow> world \<Rightarrow> uchar list \<Rightarrow> uint \<Rightarrow> uint \<Rightarrow> PixelFormatType
    \<Rightarrow> bool \<times> CameraSensorPrivate \<times> world" where
  "SaveImage s w data width height format =
     (let (ok, w1) = ensure_directory w (saveImagePath s)
      in if \<not> ok then (False, s, w1)
         else
           let filename = saveImagePrefix s @ to_string (unat (saveImageCounter s)) @ ''.png'';
               s1 = s\<lparr>saveImageCounter := saveImageCounter s + 1\<rparr>;
               localImage = \<lparr>png_data = data, png_width = width, png_height = height,
                              png_format = format\<rparr>
           in (True, s1, SavePNG w1 localImage (joinPaths (saveImagePath s) filename)))"

text \<open>
  The two loops of \<^verbatim>\<open>DepthCameraSensorPrivate::SaveImage\<close>. The loop counters are
  \<^verbatim>\<open>unsigned int\<close> and stay below the bound \<open>n\<close>, itself an \<^verbatim>\<open>unsigned int\<close>; the
  indices \<^verbatim>\<open>j * 3\<close>, \<^verbatim>\<open>j * 3 + 1\<close> and \<^verbatim>\<open>j * 3 + 2\<close> are computed in \<^verbatim>\<open>unsigned int\<close>
  and wrap. A read or a write outside the buffer is a fault.
\<close>

function max_loop :: "float list \<Rightarrow> nat \<Rightarrow> nat \<Rightarrow> float \<Rightarrow> fault + float" where
  "max_loop data i n maxDepth =
     (if i < n then
        (if i < length data then
           max_loop data (Suc i) n
             (if float_gt (data ! i) maxDepth \<and> \<not> isinf (data ! i) then data ! i else maxDepth)
         else Inl OutOfBounds)
      else Inr maxDepth)"
  by pat_completeness auto
termination
  by (relation "measure (\<lambda>(d, i, n, m). n - i)") auto

declare max_loop.simps [simp del]

definition tone :: "arith \<Rightarrow> float \<Rightarrow> float \<Rightarrow> uchar" where
  "tone ar x factor = to_uchar ar (dsub ar (Finite 255) (dmul ar x factor))"

definition store :: "uchar list \<Rightarrow> uint \<Rightarrow> uchar \<Rightarrow> fault + uchar list" where
  "store buf k d = (if unat k < length buf then Inr (buf[unat k := d]) else Inl OutOfBounds)"

function tone_loop ::
  "arith \<Rightarrow> float list \<Rightarrow> float \<Rightarrow> nat \<Rightarrow> nat \<Rightarrow> uchar list \<Rightarrow> fault + uchar list" where
  "tone_loop ar data factor j n imgDepthBuffer =
     (if j < n then
        (if j < length data then
           (let d = tone ar (data ! j) factor in
            case store imgDepthBuffer (word_of_nat j * 3) d of
              Inl e \<Rightarrow> Inl e
            | Inr b0 \<Rightarrow>
               (case store b0 (word_of_nat j * 3 + 1) d of
                  Inl e \<Rightarrow> Inl e
                | Inr b1 \<Rightarrow>
                   (case store b1 (word_of_nat j * 3 + 2) d of
                      Inl e \<Rightarrow> Inl e
                    | Inr b2 \<Rightarrow> tone_loop ar data factor (Suc j) n b2)))
         else Inl OutOfBounds)
      else Inr imgDepthBuffer)"
  by pat_completeness auto
termination
  by (relation "measure (\<lambda>(a, d, f, j, n, b). n - j)") auto

declare tone_loop.simps [simp del]

text \<open>
  \<^verbatim>\<open>DepthCameraSensorPrivate::SaveImage\<close> (DepthCameraSensor.cc, lines 106 to 155).
  \<^verbatim>\<open>new unsigned char[depthBufferSize]\<close> is storage of \<open>depthBufferSize\<close> bytes; the
  bytes it holds before the loop writes them are taken to be 0.
\<close>

definition SaveImage_depth ::
  "arith \<Rightarrow> DepthCameraSensorPrivate \<Rightarrow> world \<Rightarrow> float list \<Rightarrow> uint \<Rightarrow> uint \<Rightarrow> PixelFormatType
    \<Rightarrow> fault + (bool \<times> DepthCameraSensorPrivate \<times> world)" where
  "SaveImage_depth ar s w data width height format =
     (let (ok, w1) = ensure_directory w (saveImagePath s)
      in if \<not> ok then Inr (False, s, w1)
         else if width = 0 \<or> height = 0 then Inr (False, s, w1)
         else
           let depthSamples = width * height;
               depthBufferSize = depthSamples * 3;
               imgDepthBuffer = replicate (unat depthBufferSize) (0 :: uchar)
           in case max_loop data 0 (unat (height * width)) (Finite 0) of
                Inl e \<Rightarrow> Inl e
              | Inr maxDepth \<Rightarrow>
                 (let factor = fdiv ar (Finite 255) maxDepth
                  in case tone_loop ar data factor 0 (unat (height * width)) imgDepthBuffer of
                       Inl e \<Rightarrow> Inl e
                     | Inr img \<Rightarrow>
                        (let filename = saveImagePrefix s @ to_string (unat (saveImageCounter s))
                                          @ ''.png'';
                             s1 = s\<lparr>saveImageCounter := saveImageCounter s + 1\<rparr>;
                             localImage = \<lparr>png_data = img, png_width = width,
                                            png_height = height, png_format = RGB_INT8\<rparr>
                         in Inr (True, s1,
                                 SavePNG w1 localImage (joinPaths (saveImagePath s) filename)))))"


subsection \<open>Creating and removing the camera\<close>

text \<open>Lines 112 to 177 of CameraSensor.cc: every \<^verbatim>\<open>add_\<close> call appends to a repeated field.\<close>

definition fill_infoMsg :: "CameraInfo \<Rightarrow> sdf_Camera \<Rightarrow> string \<Rightarrow> CameraInfo" where
  "fill_infoMsg m cameraSdf name =
     m\<lparr>distortion_model := PLUMB_BOB,
       distortion_k := distortion_k m @
         [sdf_DistortionK1 cameraSdf, sdf_DistortionK2 cameraSdf, sdf_DistortionP1 cameraSdf,
          sdf_DistortionP2 cameraSdf, sdf_DistortionK3 cameraSdf],
       intrinsics_k := intrinsics_k m @
         [sdf_LensIntrinsicsFx cameraSdf, 0, sdf_LensIntrinsicsCx cameraSdf,
          0, sdf_LensIntrinsicsFy cameraSdf, sdf_LensIntrinsicsCy cameraSdf,
          0, 0, 1],
       projection_p := projection_p m @
         [sdf_LensIntrinsicsFx cameraSdf, 0, sdf_LensIntrinsicsCx cameraSdf, 0,
          0, sdf_LensIntrinsicsFy cameraSdf, sdf_LensIntrinsicsCy cameraSdf, 0,
          0, 0, 1, 0],
       rectification_matrix := rectification_matrix m @ [1, 0, 0, 0, 1, 0, 0, 0, 1],
       info_frame_id := info_frame_id m @ [name],
       info_width := sdf_ImageWidth cameraSdf,
       info_height := sdf_ImageHeight cameraSdf\<rparr>"

text \<open>
  Lines 185 to 207: the Gaussian noise model is stored under \<^verbatim>\<open>CAMERA_NOISE\<close> and bound to
  the camera; another kind of noise other than \<^verbatim>\<open>NONE\<close> is only reported.
\<close>

definition camera_noise ::
  "CameraSensorPrivate \<Rightarrow> camera_obj \<Rightarrow> world \<Rightarrow> nat \<Rightarrow> NoiseType
    \<Rightarrow> CameraSensorPrivate \<times> camera_obj \<times> world" where
  "camera_noise s cam w h noiseSdf =
     (if noiseSdf = GAUSSIAN
      then (s\<lparr>noises := (noises s)(CAMERA_NOISE \<mapsto> h)\<rparr>, cam\<lparr>noise_model := True\<rparr>, w)
      else if noiseSdf \<noteq> NONE
      then (s, cam, ignwarn w ''The camera sensor only supports Gaussian noise.'')
      else (s, cam, w))"

text \<open>
  \<^verbatim>\<open>CameraSensor::CreateCamera\<close> (CameraSensor.cc, lines 100 to 251). The field of view
  is a \<^verbatim>\<open>double\<close>: a NaN compares neither below 0.01 nor above two times \<^verbatim>\<open>IGN_PI\<close> and
  passes the test of line 213.
\<close>

definition CreateCamera ::
  "CameraSensorPrivate \<Rightarrow> world \<Rightarrow> fault + (bool \<times> CameraSensorPrivate \<times> world)" where
  "CreateCamera s w =
     (case sdfSensor s of
        None \<Rightarrow> Inr (False, s, ignerr w ''Unable to access camera SDF element.'')
      | Some cameraSdf \<Rightarrow>
         (let width = sdf_ImageWidth cameraSdf;
              height = sdf_ImageHeight cameraSdf;
              s1 = s\<lparr>infoMsg := fill_infoMsg (infoMsg s) cameraSdf (Name s)\<rparr>
          in case scene s1 of
               None \<Rightarrow> Inl NullDereference
             | Some sc \<Rightarrow>
                (let h = length (cameras w);
                     cam1 = (new_camera w)\<lparr>cam_scene := sc, cam_name := Name s1,
                              ImageWidth := width, ImageHeight := height,
                              NearClipPlane := sdf_NearClip cameraSdf,
                              FarClipPlane := sdf_FarClip cameraSdf\<rparr>;
                     s2 = s1\<lparr>camera := Some h\<rparr>;
                     (s3, cam2, w1) = camera_noise s2 cam1 w h (sdf_ImageNoise cameraSdf);
                     cam3 = cam2\<lparr>AntiAliasing := 2\<rparr>;
                     angle = sdf_HorizontalFov cameraSdf
                 in if float_less angle (Finite 0.01) \<or> float_gt angle (Finite (IGN_PI * 2))
                    then Inr (False, s3,
                              ignerr (w1\<lparr>cameras := cameras w1 @ [cam3]\<rparr>)
                                ''Invalid horizontal field of view'')
                    else
                      (let cam4 = cam3\<lparr>AspectRatio :=
                                         ieee_div binary64 (Finite (real (unat width)))
                                                   (Finite (real (unat height))),
                                       HFOV := angle\<rparr>;
                           (cam5, w2) =
                             (case sdf_PixelFormat cameraSdf of
                                RGB_INT8 \<Rightarrow> (cam4\<lparr>ImageFormat := PF_R8G8B8\<rparr>, w1)
                              | _ \<Rightarrow> (cam4, ignerr w1 ''Unsupported pixel format''));
                           s4 = s3\<lparr>image := CreateImage cam5\<rparr>;
                           w3 = w2\<lparr>cameras := cameras w2 @ [cam5],
                                  root_children := root_children w2 @ [(sc, h)]\<rparr>;
                           s5 = (if sdf_SaveFrames cameraSdf
                                 then s4\<lparr>saveImagePath := sdf_SaveFramesPath cameraSdf,
                                         saveImagePrefix := Name s4 @ ''_'',
                                         saveImage := True\<rparr>
                                 else s4)
                       in Inr (True, s5, w3)))))"

text \<open>\<^verbatim>\<open>cameraElem->Get<double>("horizontal_fov", 0).first\<close>: 0 when the element is absent.\<close>

definition horizontal_fov :: "sdf_camera_elem \<Rightarrow> float" where
  "horizontal_fov cameraElem =
     (case elem_horizontal_fov cameraElem of None \<Rightarrow> Finite 0 | Some a \<Rightarrow> a)"

text \<open>
  \<^verbatim>\<open>DepthCameraSensor::CreateCamera\<close> (DepthCameraSensor.cc, lines 217 to 314). The
  default near distance is the \<^verbatim>\<open>double\<close> nearest to 0.3, and line 255 narrows the near
  distance to the \<^verbatim>\<open>float\<close> field. A NaN field of view compares neither below 0.01 nor
  above two times \<^verbatim>\<open>IGN_PI\<close> and passes the test of line 261.
\<close>

definition CreateCamera_depth ::
  "DepthCameraSensorPrivate \<Rightarrow> world \<Rightarrow> fault + (bool \<times> DepthCameraSensorPrivate \<times> world)" where
  "CreateCamera_depth s w =
     (case SDF_camera s of
        None \<Rightarrow> Inr (False, s, ignerr w ''Unable to find <camera> SDF element'')
      | Some cameraElem \<Rightarrow>
         (case elem_image cameraElem of
            None \<Rightarrow> Inr (False, s, ignerr w ''Unable to find <camera><image> SDF element'')
          | Some imgElem \<Rightarrow>
             (let width = elem_width imgElem;
                  height = elem_height imgElem;
                  (far, near0) = (case elem_clip cameraElem of
                                    None \<Rightarrow> (Finite 100, binary64 0.3)
                                  | Some c \<Rightarrow> (clip_far c, clip_near c))
              in case scene s of
                   None \<Rightarrow> Inl NullDereference
                 | Some sc \<Rightarrow>
                    (let h = length (cameras w);
                         cam1 = (new_camera w)\<lparr>cam_scene := sc, cam_name := Name s,
                                  ImageWidth := width, ImageHeight := height,
                                  FarClipPlane := far\<rparr>;
                         s1 = s\<lparr>depthCamera := Some h, near := narrow near0\<rparr>;
                         cam2 = cam1\<lparr>AntiAliasing := 2\<rparr>;
                         angle = horizontal_fov cameraElem
                     in if float_less angle (Finite 0.01)
                           \<or> float_gt angle (Finite (IGN_PI * 2))
                        then Inr (False, s1,
                                  ignerr (w\<lparr>cameras := cameras w @ [cam2]\<rparr>)
                                    ''Invalid horizontal field of view'')
                        else
                          (let cam3 = cam2\<lparr>AspectRatio :=
                                             ieee_div binary64
                                                       (Finite (real_of_int (sint width)))
                                                       (Finite (real_of_int (sint height))),
                                           HFOV := angle, depth_texture := True\<rparr>;
                               (cam4, w1) =
                                 (case ConvertPixelFormat (elem_format imgElem) of
                                    R_FLOAT32 \<Rightarrow> (cam3\<lparr>ImageFormat := PF_FLOAT32_R\<rparr>, w)
                                  | _ \<Rightarrow> (cam3, ignerr w ''Unsupported pixel format''));
                               s2 = s1\<lparr>image := CreateImage cam4\<rparr>;
                               w2 = w1\<lparr>cameras := cameras w1 @ [cam4],
                                      root_children := root_children w1 @ [(sc, h)]\<rparr>;
                               s3 = (case elem_save cameraElem of
                                       None \<Rightarrow> s2
                                     | Some elem \<Rightarrow>
                                        (if save_enabled elem
                                         then s2\<lparr>saveImagePath := save_path elem,
                                                 saveImagePrefix := Name s2 @ ''_'',
                                                 saveImage := True\<rparr>
                                         else s2))
                           in Inr (True, s3\<lparr>connection := Some h\<rparr>, w2))))))"

text \<open>
  \<^verbatim>\<open>CameraSensorPrivate::RemoveCamera\<close> resets the pointer; in
  \<^verbatim>\<open>DepthCameraSensorPrivate::RemoveCamera\<close> that line is commented out. The branch on
  the scene is empty in both (removing the camera from the scene is left to do).
\<close>

definition RemoveCamera :: "CameraSensorPrivate \<Rightarrow> ScenePtr \<Rightarrow> CameraSensorPrivate" where
  "RemoveCamera s sc = s\<lparr>camera := None\<rparr>"

definition RemoveCamera_depth ::
  "DepthCameraSensorPrivate \<Rightarrow> ScenePtr \<Rightarrow> DepthCameraSensorPrivate" where
  "RemoveCamera_depth s sc = s"

subsection \<open>Changing the scene\<close>

text \<open>\<^verbatim>\<open>CameraSensor::SetScene\<close> (CameraSensor.cc, lines 345 to 356).\<close>

definition SetScene ::
  "CameraSensorPrivate \<Rightarrow> world \<Rightarrow> ScenePtr \<Rightarrow> fault + (CameraSensorPrivate \<times> world)" where
  "SetScene s w new_scene =
     (if scene s \<noteq> new_scene then
        (let s1 = RemoveCamera s (scene s);
             s2 = s1\<lparr>scene := new_scene\<rparr>
         in if initialized s2
            then (case CreateCamera s2 w of
                    Inl e \<Rightarrow> Inl e
                  | Inr (r, s3, w3) \<Rightarrow> Inr (s3, w3))
            else Inr (s2, w))
      else Inr (s, w))"

text \<open>\<^verbatim>\<open>DepthCameraSensor::SetScene\<close> (DepthCameraSensor.cc, lines 372 to 384).\<close>

definition SetScene_depth ::
  "DepthCameraSensorPrivate \<Rightarrow> world \<Rightarrow> ScenePtr
    \<Rightarrow> fault + (DepthCameraSensorPrivate \<times> world)" where
  "SetScene_depth s w new_scene =
     (if scene s \<noteq> new_scene then
        (let s1 = RemoveCamera_depth s (scene s);
             s2 = s1\<lparr>scene := new_scene\<rparr>
         in if initialized s2
            then (case CreateCamera_depth s2 w of
                    Inl e \<Rightarrow> Inl e
                  | Inr (r, s3, w3) \<Rightarrow> Inr (s3, w3))
            else Inr (s2, w))
      else Inr (s, w))"


subsection \<open>Depth frames\<close>

text \<open>\<^verbatim>\<open>DepthCameraSensor::FarClip\<close> and \<^verbatim>\<open>DepthCameraSensor::NearClip\<close>.\<close>

definition FarClip :: "DepthCameraSensorPrivate \<Rightarrow> world \<Rightarrow> fault + float" where
  "FarClip s w =
     (case depthCamera s of
        None \<Rightarrow> Inl NullDereference
      | Some h \<Rightarrow> (case camera_at w h of Inl e \<Rightarrow> Inl e | Inr cam \<Rightarrow> Inr (FarClipPlane cam)))"

definition NearClip :: "DepthCameraSensorPrivate \<Rightarrow> float" where
  "NearClip s = near s"

text \<open>
  \<^verbatim>\<open>memcpy\<close> of \<open>nbytes\<close> bytes between two buffers of \<^verbatim>\<open>float\<close>: \<open>nbytes div 4\<close>
  elements (the sensor always passes a multiple of 4).
\<close>

definition memcpy :: "float list \<Rightarrow> float list \<Rightarrow> nat \<Rightarrow> fault + float list" where
  "memcpy dst src nbytes =
     (let k = nbytes div 4
      in if k \<le> length src \<and> k \<le> length dst then Inr (take k src @ drop k dst)
         else Inl OutOfBounds)"

text \<open>The range mask of one sample (lines 340 to 347), and the loop over the buffer.\<close>

definition mask_sample :: "float \<Rightarrow> float \<Rightarrow> float \<Rightarrow> float" where
  "mask_sample nearv farv d =
     (if float_ge d farv then PosInf
      else if float_le d nearv then NegInf
      else d)"

function mask_loop :: "float \<Rightarrow> float \<Rightarrow> nat \<Rightarrow> nat \<Rightarrow> float list \<Rightarrow> fault + float list" where
  "mask_loop nearv farv i n buf =
     (if i < n then
        (if i < length buf
         then mask_loop nearv farv (Suc i) n (buf[i := mask_sample nearv farv (buf ! i)])
         else Inl OutOfBounds)
      else Inr buf)"
  by pat_completeness auto
termination
  by (relation "measure (\<lambda>(a, b, i, n, buf). n - i)") auto

declare mask_loop.simps [simp del]

text \<open>
  \<^verbatim>\<open>DepthCameraSensor::OnNewDepthFrame\<close> (DepthCameraSensor.cc, lines 317 to 356).
  The clip distances come back as \<^verbatim>\<open>double\<close> and are narrowed to the local \<^verbatim>\<open>float\<close>
  variables (lines 324 and 325). The buffer is allocated on the first frame only; what
  \<^verbatim>\<open>new float[depthSamples]\<close> holds before the copy is taken to be NaN.
\<close>

definition OnNewDepthFrame ::
  "arith \<Rightarrow> DepthCameraSensorPrivate \<Rightarrow> world \<Rightarrow> float list \<Rightarrow> uint \<Rightarrow> uint \<Rightarrow> string
    \<Rightarrow> fault + (DepthCameraSensorPrivate \<times> world)" where
  "OnNewDepthFrame ar s w scan width height format =
     (let nearv = narrow (NearClip s)
      in case FarClip s w of
           Inl e \<Rightarrow> Inl e
         | Inr far0 \<Rightarrow>
            (let farv = narrow far0;
                 depthSamples = width * height;
                 depthBufferSize = depthSamples * 4;
                 fmt = ConvertPixelFormat format;
                 buf0 = (case depthBuffer s of
                           None \<Rightarrow> replicate (unat depthSamples) NaN
                         | Some b \<Rightarrow> b)
             in case memcpy buf0 scan (unat depthBufferSize) of
                  Inl e \<Rightarrow> Inl e
                | Inr buf1 \<Rightarrow>
                   (case mask_loop nearv farv 0 (unat depthSamples) buf1 of
                      Inl e \<Rightarrow> Inl e
                    | Inr buf2 \<Rightarrow>
                       (let s1 = s\<lparr>depthBuffer := Some buf2\<rparr>
                        in if saveImage s1
                           then (case SaveImage_depth ar s1 w scan width height fmt of
                                   Inl e \<Rightarrow> Inl e
                                 | Inr (r, s2, w2) \<Rightarrow> Inr (s2, w2))
                           else Inr (s1, w)))))"

subsection \<open>Update\<close>

text \<open>
  \<^verbatim>\<open>CameraSensor::Update\<close> (CameraSensor.cc, lines 359 to 445). The pose of the camera is
  not modelled. The \<^verbatim>\<open>try\<close> block turns an exception of a callback into a console line;
  a fault is not an exception and is not caught.
\<close>

definition Update ::
  "CameraSensorPrivate \<Rightarrow> world \<Rightarrow> int \<Rightarrow> int
    \<Rightarrow> fault + (bool \<times> CameraSensorPrivate \<times> world)" where
  "Update s w sec nsec =
     (if \<not> initialized s then Inr (False, s, ignerr w ''Not initialized, update ignored.'')
      else case camera s of
        None \<Rightarrow> Inr (False, s, ignerr w ''Camera doesn't exist.'')
      | Some h \<Rightarrow>
         (case camera_at w h of
            Inl e \<Rightarrow> Inl e
          | Inr cam \<Rightarrow>
             (let s1 = s\<lparr>image := capture w h\<rparr>;
                  width = ImageWidth cam;
                  height = ImageHeight cam;
                  data = image s1;
                  (format, msgsPixelFormat, w1) =
                    (case ImageFormat cam of
                       PF_R8G8B8 \<Rightarrow> (RGB_INT8, RGB_INT8, w)
                     | _ \<Rightarrow> (UNKNOWN_PIXEL_FORMAT, UNKNOWN_PIXEL_FORMAT,
                             ignerr w ''Unsupported pixel format''));
                  msg = \<lparr>msg_width = width, msg_height = height,
                         msg_step = width * BytesPerPixel (ImageFormat cam),
                         msg_pixel_format = format, msg_pixel_format_type = msgsPixelFormat,
                         msg_sec = sec, msg_nsec = nsec, msg_frame_id = [Name s1],
                         msg_data = Bytes data\<rparr>;
                  w2 = w1\<lparr>published := published w1 @ [msg]\<rparr>;
                  s2 = s1\<lparr>infoMsg := (infoMsg s1)\<lparr>info_sec := sec, info_nsec := nsec\<rparr>\<rparr>;
                  w3 = w2\<lparr>info_published := info_published w2 @ [infoMsg s2]\<rparr>
              in case (case signal (imageEvent s2) msg of
                         Inl Exception \<Rightarrow>
                           Inr (ignerr w3 ''Exception thrown in an image callback.'')
                       | Inl e \<Rightarrow> Inl e
                       | Inr u \<Rightarrow> Inr w3) of
                   Inl e \<Rightarrow> Inl e
                 | Inr w4 \<Rightarrow>
                    (if saveImage s2
                     then (let (r, s3, w5) = SaveImage s2 w4 data width height format
                           in Inr (True, s3, w5))
                     else Inr (True, s2, w4)))))"

text \<open>
  \<^verbatim>\<open>DepthCamera::Update\<close> of the rendering engine: it renders one frame (\<open>depth_frame\<close> of
  the world, with the format name the engine gives it) and hands it to the callback
  that \<^verbatim>\<open>CreateCamera\<close> registered on this camera, if any.
\<close>

definition depthCamera_Update ::
  "arith \<Rightarrow> DepthCameraSensorPrivate \<Rightarrow> world \<Rightarrow> nat
    \<Rightarrow> fault + (DepthCameraSensorPrivate \<times> world)" where
  "depthCamera_Update ar s w h =
     (case camera_at w h of
        Inl e \<Rightarrow> Inl e
      | Inr cam \<Rightarrow>
         (if connection s = Some h
          then OnNewDepthFrame ar s w (fst (depth_frame w h)) (ImageWidth cam) (ImageHeight cam)
                 (snd (depth_frame w h))
          else Inr (s, w)))"

text \<open>
  \<^verbatim>\<open>DepthCameraSensor::Update\<close> (DepthCameraSensor.cc, lines 387 to 438). Handing a null
  \<open>depthBuffer\<close> to \<^verbatim>\<open>set_data\<close> is a fault.
\<close>

definition Update_depth ::
  "arith \<Rightarrow> DepthCameraSensorPrivate \<Rightarrow> world \<Rightarrow> int \<Rightarrow> int
    \<Rightarrow> fault + (bool \<times> DepthCameraSensorPrivate \<times> world)" where
  "Update_depth ar s w sec nsec =
     (if \<not> initialized s then Inr (False, s, ignerr w ''Not initialized, update ignored.'')
      else case depthCamera s of
        None \<Rightarrow> Inr (False, s, ignerr w ''Camera doesn't exist.'')
      | Some h \<Rightarrow>
         (case depthCamera_Update ar s w h of
            Inl e \<Rightarrow> Inl e
          | Inr (s1, w1) \<Rightarrow>
             (case camera_at w1 h of
                Inl e \<Rightarrow> Inl e
              | Inr cam \<Rightarrow>
                 (let width = ImageWidth cam;
                      height = ImageHeight cam;
                      format = R_FLOAT32
                  in case depthBuffer s1 of
                       None \<Rightarrow> Inl NullDereference
                     | Some buf \<Rightarrow>
                        (let msg = \<lparr>msg_width = width, msg_height = height,
                                    msg_step = width * BytesPerPixel (ImageFormat cam),
                                    msg_pixel_format = format,
                                    msg_pixel_format_type = UNKNOWN_PIXEL_FORMAT,
                                    msg_sec = sec, msg_nsec = nsec, msg_frame_id = [],
                                    msg_data = Floats buf\<rparr>;
                             w2 = w1\<lparr>published := published w1 @ [msg]\<rparr>
                         in case signal (imageEvent s1) msg of
                              Inl Exception \<Rightarrow>
                                Inr (True, s1,
                                     ignerr w2 ''Exception thrown in an image callback.'')
                            | Inl e \<Rightarrow> Inl e
                            | Inr u \<Rightarrow> Inr (True, s1, w2))))))"


subsection \<open>What the loops compute\<close>

text \<open>One step of the maximum loop, and the finite values of a buffer.\<close>

definition max_step :: "float \<Rightarrow> float \<Rightarrow> float" where
  "max_step d maxDepth = (if float_gt d maxDepth \<and> \<not> isinf d then d else maxDepth)"



text \<open>The grey image: one sample becomes three equal bytes.\<close>

definition gray_triplets :: "arith \<Rightarrow> float \<Rightarrow> float list \<Rightarrow> uchar list" where
  "gray_triplets ar factor ds =
     concat (map (\<lambda>d. [tone ar d factor, tone ar d factor, tone ar d factor]) ds)"

subsection \<open>Example configurations\<close>

definition engine_camera :: camera_obj where
  "engine_camera =
     \<lparr>cam_scene = 0, cam_name = [], ImageWidth = 1, ImageHeight = 1,
      NearClipPlane = Finite 0, FarClipPlane = Finite 0, AntiAliasing = 0,
      AspectRatio = Finite 1, HFOV = Finite 1,
      ImageFormat = PF_UNKNOWN, depth_texture = False, noise_model = False\<rparr>"

text \<open>The frame 0.05, 50, 150 as a buffer of \<^verbatim>\<open>float\<close> holds it.\<close>

definition frame0 :: "float list" where
  "frame0 = [binary32 0.05, Finite 50, Finite 150]"

definition world0 :: world where
  "world0 =
     \<lparr>cameras = [], new_camera = engine_camera, root_children = [],
      capture = (\<lambda>h. [1, 2, 3]),
      depth_frame = (\<lambda>h. (frame0, ''R_FLOAT32'')),
      directories = [''/out''], can_create = (\<lambda>p. False), can_write = (\<lambda>p. True),
      files = [], published = [], info_published = [], console = []\<rparr>"

definition sdf0 :: sdf_Camera where
  "sdf0 =
     \<lparr>sdf_ImageWidth = 320, sdf_ImageHeight = 240,
      sdf_DistortionK1 = 0, sdf_DistortionK2 = 0, sdf_DistortionK3 = 0,
      sdf_DistortionP1 = 0, sdf_DistortionP2 = 0,
      sdf_LensIntrinsicsFx = 277, sdf_LensIntrinsicsFy = 277,
      sdf_LensIntrinsicsCx = 160, sdf_LensIntrinsicsCy = 120,
      sdf_NearClip = binary64 0.1, sdf_FarClip = Finite 100, sdf_ImageNoise = NONE,
      sdf_HorizontalFov = Finite 1.047, sdf_PixelFormat = RGB_INT8,
      sdf_SaveFrames = False, sdf_SaveFramesPath = []\<rparr>"

definition info0 :: CameraInfo where
  "info0 =
     \<lparr>distortion_model = PLUMB_BOB, distortion_k = [], intrinsics_k = [], projection_p = [],
      rectification_matrix = [], info_frame_id = [], info_width = 0, info_height = 0,
      info_sec = 0, info_nsec = 0\<rparr>"

text \<open>A colour sensor as its constructor leaves it, named and with a configuration and a scene.\<close>

definition sensor0 :: CameraSensorPrivate where
  "sensor0 =
     \<lparr>Name = ''cam'', initialized = False, scene = Some 1, image = [], imageEvent = [],
      saveImage = False, saveImagePath = [], saveImagePrefix = [], saveImageCounter = 0,
      camera = None, noises = Map.empty, sdfSensor = Some sdf0, infoMsg = info0\<rparr>"

text \<open>A colour sensor that saves its frames under \<^verbatim>\<open>/out\<close> with the prefix \<^verbatim>\<open>cam_\<close>.\<close>

definition world_nodir :: world where
  "world_nodir = world0\<lparr>directories := []\<rparr>"

definition world_readonly :: world where
  "world_readonly = world0\<lparr>can_write := (\<lambda>p. False)\<rparr>"

definition saver0 :: CameraSensorPrivate where
  "saver0 = sensor0\<lparr>saveImage := True, saveImagePath := ''/out'', saveImagePrefix := ''cam_''\<rparr>"

definition elem0 :: sdf_camera_elem where
  "elem0 =
     \<lparr>elem_image = Some \<lparr>elem_width = 3, elem_height = 1, elem_format = ''R_FLOAT32''\<rparr>,
      elem_clip = Some \<lparr>clip_far = Finite 100, clip_near = binary64 0.1\<rparr>,
      elem_horizontal_fov = Some (Finite 1.047), elem_distortion = False, elem_save = None\<rparr>"

definition depth0 :: DepthCameraSensorPrivate where
  "depth0 =
     \<lparr>Name = ''depth'', initialized = False, scene = Some 1, image = [], imageEvent = [],
      saveImage = False, saveImagePath = ''./'', saveImagePrefix = ''./'', saveImageCounter = 0,
      depthCamera = None, depthBuffer = None, near = Finite 0, connection = None,
      SDF_camera = Some elem0\<rparr>"

text \<open>
  A world with one depth camera (far clip plane 100) and a depth sensor bound to it, its
  near distance the \<^verbatim>\<open>float\<close> nearest to 0.1.
\<close>

definition world1 :: world where
  "world1 = world0\<lparr>cameras := [engine_camera\<lparr>cam_scene := 1, ImageWidth := 3,
                                               ImageHeight := 1,
                                               FarClipPlane := Finite 100\<rparr>]\<rparr>"

definition depth1 :: DepthCameraSensorPrivate where
  "depth1 = depth0\<lparr>initialized := True, depthCamera := Some 0, near := binary32 0.1,
                   connection := Some 0\<rparr>"

definition depth_saver1 :: DepthCameraSensorPrivate where
  "depth_saver1 = depth1\<lparr>saveImage := True, saveImagePath := ''/out'',
                         saveImagePrefix := ''depth_''\<rparr>"

text \<open>Sensors whose field of view is 8 radians, more than two times pi.\<close>

definition wide_sensor :: CameraSensorPrivate where
  "wide_sensor = sensor0\<lparr>sdfSensor := Some (sdf0\<lparr>sdf_HorizontalFov := Finite 8\<rparr>)\<rparr>"

definition wide_depth :: DepthCameraSensorPrivate where
  "wide_depth =
     depth0\<lparr>SDF_camera := Some (elem0\<lparr>elem_horizontal_fov := Some (Finite 8)\<rparr>)\<rparr>"

text \<open>Sensors whose field of view is NaN.\<close>

definition nan_sensor :: CameraSensorPrivate where
  "nan_sensor = sensor0\<lparr>sdfSensor := Some (sdf0\<lparr>sdf_HorizontalFov := NaN\<rparr>)\<rparr>"

definition nan_depth :: DepthCameraSensorPrivate where
  "nan_depth = depth0\<lparr>SDF_camera := Some (elem0\<lparr>elem_horizontal_fov := Some NaN\<rparr>)\<rparr>"

text \<open>
  The colour sensor after \<^verbatim>\<open>Load\<close> with scene 1: \<^verbatim>\<open>Load\<close> calls \<^verbatim>\<open>CreateCamera\<close> (line 319)
  and then sets \<open>initialized\<close> (line 325).
\<close>

definition loaded :: "CameraSensorPrivate \<times> world" where
  "loaded =
     (case CreateCamera sensor0 world0 of
        Inr (r, s, w) \<Rightarrow> (s\<lparr>initialized := True\<rparr>, w)
      | Inl e \<Rightarrow> (sensor0, world0))"

text \<open>
  An initialized colour sensor bound to camera 0 of scene 1, and the same sensor with two
  callbacks of which the first throws; a depth sensor with such callbacks.
\<close>

definition world2 :: world where
  "world2 = world0\<lparr>cameras := [engine_camera\<lparr>cam_scene := 1, ImageWidth := 320,
                                               ImageHeight := 240,
                                               ImageFormat := PF_R8G8B8\<rparr>]\<rparr>"

definition bound2 :: CameraSensorPrivate where
  "bound2 = sensor0\<lparr>initialized := True, camera := Some 0\<rparr>"

definition thrower2 :: CameraSensorPrivate where
  "thrower2 = bound2\<lparr>imageEvent := [\<lambda>m. True, \<lambda>m. False]\<rparr>"

definition depth_thrower1 :: DepthCameraSensorPrivate where
  "depth_thrower1 = depth1\<lparr>imageEvent := [\<lambda>m. True, \<lambda>m. False]\<rparr>"

section \<open>Properties\<close>

text \<open>The equations that evaluate the rounding functions on numerals.\<close>

lemmas ieee_eval = binary32_def binary64_def round_to_def scale_down.simps scale_up.simps
  round_even_def times_pow2_def Let_def

lemma frame0_values: "frame0 = [Finite (13421773 / 268435456), Finite 50, Finite 150]"
  by (simp add: frame0_def ieee_eval)

subsection \<open>Saving frames: the early returns\<close>

lemma ensure_directory_absent:
  "\<not> isDirectory w p \<Longrightarrow> \<not> can_create w p \<Longrightarrow> ensure_directory w p = (False, w)"
  by (simp add: ensure_directory_def createDirectories_def)

lemma ensure_directory_files: "files (snd (ensure_directory w p)) = files w"
  by (simp add: ensure_directory_def createDirectories_def)

lemma ensure_directory_ok:
  "fst (ensure_directory w p) = (isDirectory w p \<or> can_create w p)"
  by (simp add: ensure_directory_def createDirectories_def)

text \<open>
  Claim C10. Both \<^verbatim>\<open>SaveImage\<close> functions return false before the counter is
  incremented when the output directory is absent and cannot be created, and the depth
  variant also when the width or the height is 0; on these paths the sensor (its counter
  included) is unchanged and no file is written. Conversely, a call that changes the
  counter returned true after the directory check (and, in the depth variant, with a
  width and a height other than 0).
\<close>

theorem SaveImage_early_failure:
  fixes s :: CameraSensorPrivate and d :: DepthCameraSensorPrivate
  shows
    "(\<not> isDirectory w (saveImagePath s) \<and> \<not> can_create w (saveImagePath s) \<longrightarrow>
        SaveImage s w data width height format = (False, s, w)) \<and>
     (\<not> isDirectory w (saveImagePath d) \<and> \<not> can_create w (saveImagePath d) \<longrightarrow>
        SaveImage_depth ar d w scan width height format = Inr (False, d, w)) \<and>
     (width = 0 \<or> height = 0 \<longrightarrow>
        (\<exists>w1. SaveImage_depth ar d w scan width height format = Inr (False, d, w1) \<and>
              files w1 = files w)) \<and>
     (\<forall>r s' w'. SaveImage s w data width height format = (r, s', w') \<and>
         saveImageCounter s' \<noteq> saveImageCounter s \<longrightarrow>
         r \<and> (isDirectory w (saveImagePath s) \<or> can_create w (saveImagePath s))) \<and>
     (\<forall>r d' w'. SaveImage_depth ar d w scan width height format = Inr (r, d', w') \<and>
         saveImageCounter d' \<noteq> saveImageCounter d \<longrightarrow>
         r \<and> (isDirectory w (saveImagePath d) \<or> can_create w (saveImagePath d)) \<and>
         width \<noteq> 0 \<and> height \<noteq> 0)"
proof (intro conjI impI allI)
  assume "\<not> isDirectory w (saveImagePath s) \<and> \<not> can_create w (saveImagePath s)"
  then show "SaveImage s w data width height format = (False, s, w)"
    by (simp add: SaveImage_def ensure_directory_absent)
next
  assume "\<not> isDirectory w (saveImagePath d) \<and> \<not> can_create w (saveImagePath d)"
  then show "SaveImage_depth ar d w scan width height format = Inr (False, d, w)"
    by (simp add: SaveImage_depth_def ensure_directory_absent)
next
  assume z: "width = 0 \<or> height = 0"
  obtain ok w1 where e: "ensure_directory w (saveImagePath d) = (ok, w1)"
    by (cases "ensure_directory w (saveImagePath d)")
  have "files w1 = files w"
    using ensure_directory_files [of w "saveImagePath d"] e by simp
  moreover have "SaveImage_depth ar d w scan width height format = Inr (False, d, w1)"
    using z e by (auto simp: SaveImage_depth_def)
  ultimately show "\<exists>w1. SaveImage_depth ar d w scan width height format = Inr (False, d, w1) \<and>
      files w1 = files w"
    by blast
next
  fix r s' w'
  assume a: "SaveImage s w data width height format = (r, s', w') \<and>
    saveImageCounter s' \<noteq> saveImageCounter s"
  obtain ok w1 where e: "ensure_directory w (saveImagePath s) = (ok, w1)"
    by (cases "ensure_directory w (saveImagePath s)")
  have "ok" "r"
    using a e by (auto simp: SaveImage_def Let_def split: if_splits)
  then show "r" "isDirectory w (saveImagePath s) \<or> can_create w (saveImagePath s)"
    using e ensure_directory_ok [of w "saveImagePath s"] by simp_all
next
  fix r d' w'
  assume a: "SaveImage_depth ar d w scan width height format = Inr (r, d', w') \<and>
    saveImageCounter d' \<noteq> saveImageCounter d"
  obtain ok w1 where e: "ensure_directory w (saveImagePath d) = (ok, w1)"
    by (cases "ensure_directory w (saveImagePath d)")
  have "ok \<and> r \<and> width \<noteq> 0 \<and> height \<noteq> 0"
    using a e by (auto simp: SaveImage_depth_def Let_def split: if_splits sum.splits)
  then show "r" "isDirectory w (saveImagePath d) \<or> can_create w (saveImagePath d)"
    "width \<noteq> 0" "height \<noteq> 0"
    using e ensure_directory_ok [of w "saveImagePath d"] by simp_all
qed

theorem SaveImage_early_failure_witness:
  "\<not> isDirectory world_nodir (saveImagePath saver0) \<and>
   \<not> can_create world_nodir (saveImagePath saver0) \<and>
   SaveImage saver0 world_nodir [1, 2, 3] 1 1 RGB_INT8 = (False, saver0, world_nodir) \<and>
   \<not> isDirectory world_nodir (saveImagePath depth_saver1) \<and>
   \<not> can_create world_nodir (saveImagePath depth_saver1) \<and>
   SaveImage_depth ieee_arith depth_saver1 world_nodir [Finite 1] 1 1 RGB_INT8
     = Inr (False, depth_saver1, world_nodir) \<and>
   files world_nodir = []"
proof -
  have a: "\<not> isDirectory world_nodir (saveImagePath saver0) \<and>
           \<not> can_create world_nodir (saveImagePath saver0)"
    by (simp add: isDirectory_def world_nodir_def world0_def saver0_def sensor0_def)
  have b: "\<not> isDirectory world_nodir (saveImagePath depth_saver1) \<and>
           \<not> can_create world_nodir (saveImagePath depth_saver1)"
    by (simp add: isDirectory_def world_nodir_def world0_def depth_saver1_def depth1_def
        depth0_def)
  have c: "files world_nodir = []"
    by (simp add: world_nodir_def world0_def)
  note t = SaveImage_early_failure [of world_nodir saver0 "[1, 2, 3]" 1 1 RGB_INT8
      depth_saver1 ieee_arith "[Finite 1]"]
  show ?thesis using a b c t by simp
qed

subsection \<open>The loops of the depth image\<close>

lemma max_loop_fold:
  "n \<le> length data \<Longrightarrow> i \<le> n \<Longrightarrow>
   max_loop data i n m = Inr (fold max_step (drop i (take n data)) m)"
proof (induction "n - i" arbitrary: i m)
  case 0
  then show ?case by (simp add: max_loop.simps)
next
  case (Suc k)
  then have lt: "i < n" and len: "i < length data" by auto
  have d: "drop i (take n data) = data ! i # drop (Suc i) (take n data)"
    using lt len Cons_nth_drop_Suc [of i "take n data"] by simp
  have "max_loop data i n m = max_loop data (Suc i) n (max_step (data ! i) m)"
    using lt len by (subst max_loop.simps) (simp add: max_step_def)
  also have "\<dots> = Inr (fold max_step (drop (Suc i) (take n data)) (max_step (data ! i) m))"
    using Suc by (intro Suc.hyps(1)) auto
  finally show ?case by (simp add: d)
qed



lemma take_three_updates:
  "3 * j + 2 < length b \<Longrightarrow>
   take (3 * Suc j) (b[3 * j := d, 3 * j + 1 := d, 3 * j + 2 := d]) = take (3 * j) b @ [d, d, d]"
  by (auto simp: list_eq_iff_nth_eq nth_append nth_list_update less_Suc_eq)

lemma unat_index:
  "3 * j + 2 < 2 ^ 32 \<Longrightarrow>
   unat (word_of_nat j * 3 :: uint) = 3 * j \<and>
   unat (word_of_nat j * 3 + 1 :: uint) = 3 * j + 1 \<and>
   unat (word_of_nat j * 3 + 2 :: uint) = 3 * j + 2"
proof -
  assume b: "3 * j + 2 < 2 ^ 32"
  have "(word_of_nat j * 3 :: uint) = word_of_nat (3 * j)" by simp
  moreover have "(word_of_nat j * 3 + 1 :: uint) = word_of_nat (3 * j + 1)" by simp
  moreover have "(word_of_nat j * 3 + 2 :: uint) = word_of_nat (3 * j + 2)" by simp
  ultimately show ?thesis
    using b by (simp only: unat_of_nat) simp
qed

lemma tone_loop_inv:
  "n \<le> length data \<Longrightarrow> j \<le> n \<Longrightarrow> length img = 3 * n \<Longrightarrow> 3 * n < 2 ^ 32 \<Longrightarrow>
   tone_loop ar data factor j n img =
     Inr (take (3 * j) img @ gray_triplets ar factor (drop j (take n data)))"
proof (induction "n - j" arbitrary: j img)
  case 0
  then show ?case by (simp add: tone_loop.simps gray_triplets_def)
next
  case (Suc k)
  then have lt: "j < n" and len: "j < length data" by auto
  define d where "d = tone ar (data ! j) factor"
  define img' where "img' = img[3 * j := d, 3 * j + 1 := d, 3 * j + 2 := d]"
  have b: "3 * j + 2 < length img" "3 * j + 2 < 2 ^ 32" using lt Suc.prems by auto
  note ix = unat_index [OF b(2)]
  have step: "tone_loop ar data factor j n img = tone_loop ar data factor (Suc j) n img'"
    using lt len b(1) by (subst tone_loop.simps) (simp add: store_def ix Let_def d_def img'_def)
  have ih: "tone_loop ar data factor (Suc j) n img' =
      Inr (take (3 * Suc j) img' @ gray_triplets ar factor (drop (Suc j) (take n data)))"
    using Suc.prems Suc.hyps(2) lt by (intro Suc.hyps(1)) (auto simp: img'_def)
  have dr: "drop j (take n data) = data ! j # drop (Suc j) (take n data)"
    using lt len Cons_nth_drop_Suc [of j "take n data"] by simp
  have tk: "take (3 * Suc j) img' = take (3 * j) img @ [d, d, d]"
    unfolding img'_def using b(1) by (rule take_three_updates)
  show ?case
    unfolding step ih tk dr by (simp add: gray_triplets_def d_def)
qed

lemma unat_sizes:
  fixes width height :: uint
  assumes "unat width * unat height * 3 < 2 ^ 32"
  shows "unat (width * height) = unat width * unat height"
    and "unat (height * width) = unat width * unat height"
    and "unat (width * height * 3) = 3 * (unat width * unat height)"
proof -
  have a: "unat width * unat height < 2 ^ 32" using assms by simp
  show 1: "unat (width * height) = unat width * unat height"
    using a by (simp add: unat_word_ariths)
  show "unat (height * width) = unat width * unat height"
    using 1 by (simp add: mult.commute)
  show "unat (width * height * 3) = 3 * (unat width * unat height)"
    using assms 1 by (simp add: unat_word_ariths mult.commute)
qed

text \<open>
  The depth variant on the path that reaches the encoder: the maximum is folded over the
  first \<open>width * height\<close> samples, every sample becomes a grey triplet, the counter is
  incremented and the image is handed to the encoder under the numbered name.
\<close>

lemma SaveImage_depth_encodes:
  assumes "ensure_directory w (saveImagePath s) = (True, w1)"
    and "width \<noteq> 0" and "height \<noteq> 0"
    and "unat width * unat height * 3 < 2 ^ 32"
    and "unat width * unat height \<le> length data"
  shows "SaveImage_depth ar s w data width height format =
    Inr (True, s\<lparr>saveImageCounter := saveImageCounter s + 1\<rparr>,
         SavePNG w1
           \<lparr>png_data = gray_triplets ar
                          (fdiv ar (Finite 255)
                             (fold max_step (take (unat width * unat height) data) (Finite 0)))
                          (take (unat width * unat height) data),
            png_width = width, png_height = height, png_format = RGB_INT8\<rparr>
           (joinPaths (saveImagePath s)
              (saveImagePrefix s @ to_string (unat (saveImageCounter s)) @ ''.png'')))"
proof -
  let ?n = "unat width * unat height"
  note sz = unat_sizes [OF assms(4)]
  have m: "max_loop data 0 ?n (Finite 0) = Inr (fold max_step (take ?n data) (Finite 0))"
    using max_loop_fold [of ?n data 0 "Finite 0"] assms(5) by simp
  have t: "tone_loop ar data factor 0 ?n (replicate (3 * ?n) 0)
      = Inr (gray_triplets ar factor (take ?n data))" for factor
    using tone_loop_inv [of ?n data 0 "replicate (3 * ?n) 0" ar factor] assms(4,5) by simp
  show ?thesis
    using assms(1,2,3) by (simp add: SaveImage_depth_def sz m t)
qed

subsection \<open>The save counter\<close>

text \<open>
  Claim C3, as stated, is false on the code: a call that fails at the directory check
  returns before the counter is touched. Here the directory \<^verbatim>\<open>/out\<close> neither exists nor
  can be created, and the counter is still 0 after the call.
\<close>

theorem SaveImage_counter_counterexample:
  "saveImageCounter saver0 = 0 \<and>
   saveImageCounter (fst (snd (SaveImage saver0 world_nodir [1, 2, 3] 1 1 RGB_INT8))) = 0"
  by (simp add: SaveImage_def ensure_directory_def createDirectories_def isDirectory_def
      world_nodir_def world0_def saver0_def sensor0_def)

text \<open>
  Claim C3, amended. Every call to \<^verbatim>\<open>SaveImage\<close> that passes the directory check (and,
  in the depth variant, has a width and a height other than 0 and a buffer of
  width times height samples whose grey image fits 32-bit sizes) names the file
  prefix, counter, \<^verbatim>\<open>.png\<close>, increments the counter by exactly 1 and returns true,
  whether or not the encoder then writes the file.
\<close>

theorem SaveImage_counter_increment:
  fixes s :: CameraSensorPrivate and d :: DepthCameraSensorPrivate
  shows
    "(ensure_directory w (saveImagePath s) = (True, w1) \<longrightarrow>
        SaveImage s w data width height format =
           (True, s\<lparr>saveImageCounter := saveImageCounter s + 1\<rparr>,
            SavePNG w1
              \<lparr>png_data = data, png_width = width, png_height = height, png_format = format\<rparr>
              (joinPaths (saveImagePath s)
                 (saveImagePrefix s @ to_string (unat (saveImageCounter s)) @ ''.png'')))) \<and>
     (ensure_directory w (saveImagePath d) = (True, w2) \<and> width \<noteq> 0 \<and> height \<noteq> 0 \<and>
      unat width * unat height * 3 < 2 ^ 32 \<and> unat width * unat height \<le> length scan \<longrightarrow>
        (\<exists>img. SaveImage_depth ar d w scan width height format =
           Inr (True, d\<lparr>saveImageCounter := saveImageCounter d + 1\<rparr>,
                SavePNG w2 img
                  (joinPaths (saveImagePath d)
                     (saveImagePrefix d @ to_string (unat (saveImageCounter d)) @ ''.png'')))))"
proof (intro conjI impI)
  assume "ensure_directory w (saveImagePath s) = (True, w1)"
  then show "SaveImage s w data width height format =
           (True, s\<lparr>saveImageCounter := saveImageCounter s + 1\<rparr>,
            SavePNG w1
              \<lparr>png_data = data, png_width = width, png_height = height, png_format = format\<rparr>
              (joinPaths (saveImagePath s)
                 (saveImagePrefix s @ to_string (unat (saveImageCounter s)) @ ''.png'')))"
    by (simp add: SaveImage_def)
next
  assume a: "ensure_directory w (saveImagePath d) = (True, w2) \<and> width \<noteq> 0 \<and> height \<noteq> 0 \<and>
      unat width * unat height * 3 < 2 ^ 32 \<and> unat width * unat height \<le> length scan"
  show "\<exists>img. SaveImage_depth ar d w scan width height format =
           Inr (True, d\<lparr>saveImageCounter := saveImageCounter d + 1\<rparr>,
                SavePNG w2 img
                  (joinPaths (saveImagePath d)
                     (saveImagePrefix d @ to_string (unat (saveImageCounter d)) @ ''.png'')))"
    using SaveImage_depth_encodes [of w d w2 width height scan ar format] a by blast
qed

text \<open>
  The scenario of the specification: two saves with the prefix \<^verbatim>\<open>cam_\<close> from counter 0
  write \<^verbatim>\<open>cam_0.png\<close> and then \<^verbatim>\<open>cam_1.png\<close>; and where no file can be written the
  counter advances all the same.
\<close>

theorem SaveImage_counter_increment_witness:
  "ensure_directory world0 (saveImagePath saver0) = (True, world0) \<and>
   fst (SaveImage saver0 world0 [1, 2, 3] 1 1 RGB_INT8) \<and>
   saveImageCounter (fst (snd (SaveImage saver0 world0 [1, 2, 3] 1 1 RGB_INT8))) = 1 \<and>
   map fst (files (snd (snd
     (SaveImage (fst (snd (SaveImage saver0 world0 [1, 2, 3] 1 1 RGB_INT8)))
                (snd (snd (SaveImage saver0 world0 [1, 2, 3] 1 1 RGB_INT8)))
                [4, 5, 6] 1 1 RGB_INT8))))
     = [''/out/cam_0.png'', ''/out/cam_1.png''] \<and>
   saveImageCounter (fst (snd (SaveImage saver0 world_readonly [1, 2, 3] 1 1 RGB_INT8))) = 1 \<and>
   files (snd (snd (SaveImage saver0 world_readonly [1, 2, 3] 1 1 RGB_INT8))) = []"
proof -
  have e: "ensure_directory world0 (saveImagePath saver0) = (True, world0)"
    by (simp add: ensure_directory_def isDirectory_def world0_def saver0_def sensor0_def)
  define img :: png_image where
    "img = \<lparr>png_data = [1, 2, 3], png_width = 1, png_height = 1, png_format = RGB_INT8\<rparr>"
  have 1: "SaveImage saver0 world0 [1, 2, 3] 1 1 RGB_INT8 =
      (True, saver0\<lparr>saveImageCounter := saveImageCounter saver0 + 1\<rparr>,
       SavePNG world0 img
         (joinPaths (saveImagePath saver0)
            (saveImagePrefix saver0 @ to_string (unat (saveImageCounter saver0)) @ ''.png'')))"
    using SaveImage_counter_increment [of world0 saver0 world0 "[1, 2, 3]" 1 1 RGB_INT8] e
    unfolding img_def by blast
  have 2: "map fst (files (snd (snd
     (SaveImage (saver0\<lparr>saveImageCounter := saveImageCounter saver0 + 1\<rparr>)
        (SavePNG world0 img
         (joinPaths (saveImagePath saver0)
            (saveImagePrefix saver0 @ to_string (unat (saveImageCounter saver0)) @ ''.png'')))
                [4, 5, 6] 1 1 RGB_INT8))))
     = [''/out/cam_0.png'', ''/out/cam_1.png'']"
    by (simp add: SaveImage_def ensure_directory_def isDirectory_def SavePNG_def joinPaths_def
        to_string.simps digit_char_def world0_def saver0_def sensor0_def)
  have 3: "saveImageCounter (fst (snd (SaveImage saver0 world_readonly [1, 2, 3] 1 1 RGB_INT8))) = 1 \<and>
   files (snd (snd (SaveImage saver0 world_readonly [1, 2, 3] 1 1 RGB_INT8))) = []"
    by (simp add: SaveImage_def ensure_directory_def isDirectory_def SavePNG_def joinPaths_def
        world_readonly_def world0_def saver0_def sensor0_def)
  have 4: "saveImageCounter saver0 + 1 = 1"
    by (simp add: saver0_def sensor0_def)
  show ?thesis
    using e 2 3 4 unfolding 1 by simp
qed

subsection \<open>The grey image of a depth frame\<close>





subsection \<open>Depth frames: the range mask\<close>

lemma float_le_less_trans:
  "float_le d a \<Longrightarrow> float_less a b \<Longrightarrow> float_less d b"
  by (cases d; cases a; cases b) (auto simp: float_le_def)

lemma float_less_not_ge: "float_less d b \<Longrightarrow> \<not> float_ge d b"
  by (cases d; cases b) (simp_all add: float_ge_def float_le_def)

lemma float_less_not_le: "float_less a d \<Longrightarrow> \<not> float_le d a"
  by (cases d; cases a) (simp_all add: float_le_def)

lemma mask_sample_cases:
  assumes "float_less nearv farv"
  shows "float_ge d farv \<Longrightarrow> mask_sample nearv farv d = PosInf"
    and "float_le d nearv \<Longrightarrow> mask_sample nearv farv d = NegInf"
    and "float_less nearv d \<Longrightarrow> float_less d farv \<Longrightarrow> mask_sample nearv farv d = d"
proof -
  show "float_ge d farv \<Longrightarrow> mask_sample nearv farv d = PosInf"
    by (simp add: mask_sample_def)
  show "float_le d nearv \<Longrightarrow> mask_sample nearv farv d = NegInf"
    using assms float_less_not_ge [OF float_le_less_trans, of d nearv farv]
    by (simp add: mask_sample_def)
  show "float_less nearv d \<Longrightarrow> float_less d farv \<Longrightarrow> mask_sample nearv farv d = d"
    using float_less_not_ge [of d farv] float_less_not_le [of nearv d]
    by (simp add: mask_sample_def)
qed
lemma mask_loop_map:
  "n \<le> length buf \<Longrightarrow> i \<le> n \<Longrightarrow>
   mask_loop nearv farv i n buf =
     Inr (take i buf @ map (mask_sample nearv farv) (drop i (take n buf)) @ drop n buf)"
proof (induction "n - i" arbitrary: i buf)
  case 0
  then show ?case by (simp add: mask_loop.simps)
next
  case (Suc k)
  then have lt: "i < n" and len: "i < length buf" by auto
  define buf' where "buf' = buf[i := mask_sample nearv farv (buf ! i)]"
  have step: "mask_loop nearv farv i n buf = mask_loop nearv farv (Suc i) n buf'"
    using lt len by (subst mask_loop.simps) (simp add: buf'_def)
  have ih: "mask_loop nearv farv (Suc i) n buf' =
      Inr (take (Suc i) buf' @ map (mask_sample nearv farv) (drop (Suc i) (take n buf'))
           @ drop n buf')"
    using Suc.prems Suc.hyps(2) lt by (intro Suc.hyps(1)) (auto simp: buf'_def)
  have 1: "take (Suc i) buf' = take i buf @ [mask_sample nearv farv (buf ! i)]"
    using len by (simp add: buf'_def take_Suc_conv_app_nth)
  have 2: "drop (Suc i) (take n buf') = drop (Suc i) (take n buf)"
    by (simp add: buf'_def drop_take)
  have 3: "drop n buf' = drop n buf"
    using lt by (simp add: buf'_def)
  have 4: "drop i (take n buf) = buf ! i # drop (Suc i) (take n buf)"
    using lt len Cons_nth_drop_Suc [of i "take n buf"] by simp
  show ?case unfolding step ih 1 2 3 4 by simp
qed

lemma SaveImage_depth_returns:
  assumes "unat width * unat height * 3 < 2 ^ 32"
    and "unat width * unat height \<le> length data"
  shows "\<exists>r s' w'. SaveImage_depth ar s w data width height format = Inr (r, s', w')"
proof -
  obtain ok w1 where e: "ensure_directory w (saveImagePath s) = (ok, w1)"
    by (cases "ensure_directory w (saveImagePath s)")
  show ?thesis
  proof (cases "ok \<and> width \<noteq> 0 \<and> height \<noteq> 0")
    case True
    then have "ensure_directory w (saveImagePath s) = (True, w1)" "width \<noteq> 0" "height \<noteq> 0"
      using e by simp_all
    from SaveImage_depth_encodes [OF this assms, of ar format] show ?thesis
      by (intro exI)
  next
    case False
    then show ?thesis
      using e by (auto simp: SaveImage_depth_def)
  qed
qed

lemma SaveImage_depth_depthBuffer:
  "SaveImage_depth ar (s\<lparr>depthBuffer := b\<rparr>) w data width height format =
     map_sum id (\<lambda>(r, s', w'). (r, s'\<lparr>depthBuffer := b\<rparr>, w'))
       (SaveImage_depth ar s w data width height format)"
  by (simp add: SaveImage_depth_def Let_def split: prod.splits sum.splits)

text \<open>
  The frame handler on frames whose sizes do not wrap: the buffer holds the masked
  copy of the first \<open>width * height\<close> samples, and when saving is on, the sensor and the
  world are otherwise those that \<^verbatim>\<open>SaveImage\<close> leaves when it is given the raw scan.
\<close>

lemma OnNewDepthFrame_result:
  assumes "FarClip s w = Inr far0"
    and "unat width * unat height * 4 < 2 ^ 32"
    and "n = unat width * unat height"
    and "n \<le> length scan"
    and "case depthBuffer s of None \<Rightarrow> True | Some b \<Rightarrow> n \<le> length b"
    and "buf = map (mask_sample (narrow (NearClip s)) (narrow far0)) (take n scan)
               @ (case depthBuffer s of None \<Rightarrow> [] | Some b \<Rightarrow> drop n b)"
  shows "OnNewDepthFrame ar s w scan width height format =
    (if saveImage s
     then map_sum id (\<lambda>(r, s', w'). (s'\<lparr>depthBuffer := Some buf\<rparr>, w'))
            (SaveImage_depth ar s w scan width height (ConvertPixelFormat format))
     else Inr (s\<lparr>depthBuffer := Some buf\<rparr>, w))"
proof -
  define buf0 where
    "buf0 = (case depthBuffer s of None \<Rightarrow> replicate (unat (width * height)) NaN | Some b \<Rightarrow> b)"
  have a: "unat width * unat height < 2 ^ 32" using assms(2) by linarith
  have sz1: "unat (width * height) = n"
    using a assms(3) by (simp add: unat_word_ariths)
  have "unat (width * height * 4) = (n * 4) mod 2 ^ 32"
    using sz1 by (simp add: unat_word_ariths)
  then have sz2: "unat (width * height * 4) = 4 * n"
    using assms(2,3) by (simp add: mult.commute)
  note sz = sz1 sz2
  have three: "unat width * unat height * 3 < 2 ^ 32" using assms(2) by linarith
  have l0: "n \<le> length buf0"
    using assms(5) by (simp add: buf0_def sz split: option.splits)
  have d0: "drop n buf0 = (case depthBuffer s of None \<Rightarrow> [] | Some b \<Rightarrow> drop n b)"
    by (simp add: buf0_def sz split: option.splits)
  have mc: "memcpy buf0 scan (4 * n) = Inr (take n scan @ drop n buf0)"
    using l0 assms(4) by (simp add: memcpy_def)
  have ml: "mask_loop (narrow (NearClip s)) (narrow far0) 0 n (take n scan @ drop n buf0) = Inr buf"
    using mask_loop_map [of n "take n scan @ drop n buf0" 0 "narrow (NearClip s)" "narrow far0"]
      l0 assms(4) by (simp add: assms(6) d0)
  obtain r s' w' where sv:
    "SaveImage_depth ar s w scan width height (ConvertPixelFormat format) = Inr (r, s', w')"
    using SaveImage_depth_returns [OF three, of scan ar s w] assms(3,4) by blast
  show ?thesis
    using assms(1) mc ml
    by (simp add: OnNewDepthFrame_def Let_def sz buf0_def [symmetric]
        SaveImage_depth_depthBuffer sv)
qed

text \<open>
  Claim C2. With near < far, the values of the local \<^verbatim>\<open>float\<close> variables of
  \<^verbatim>\<open>OnNewDepthFrame\<close>, the range mask maps a sample \<open>d\<close> of the frame to plus infinity
  when \<open>d \<ge> far\<close>, to minus infinity when \<open>d \<le> near\<close>, and leaves it as it is when
  \<open>near < d < far\<close>.
\<close>

theorem OnNewDepthFrame_range_mask:
  assumes "FarClip s w = Inr far0"
    and "nearv = narrow (NearClip s)" and "farv = narrow far0"
    and "float_less nearv farv"
    and "unat width * unat height * 4 < 2 ^ 32"
    and "unat width * unat height \<le> length scan"
    and "case depthBuffer s of None \<Rightarrow> True | Some b \<Rightarrow> unat width * unat height \<le> length b"
    and "i < unat width * unat height"
    and "d = scan ! i"
  shows "\<exists>s' w' buf. OnNewDepthFrame ar s w scan width height format = Inr (s', w') \<and>
      depthBuffer s' = Some buf \<and> i < length buf \<and>
      (float_ge d farv \<longrightarrow> buf ! i = PosInf) \<and>
      (float_le d nearv \<longrightarrow> buf ! i = NegInf) \<and>
      (float_less nearv d \<and> float_less d farv \<longrightarrow> buf ! i = d)"
proof -
  let ?n = "unat width * unat height"
  let ?m = "mask_sample (narrow (NearClip s)) (narrow far0)"
  define buf where
    "buf = map ?m (take ?n scan) @ (case depthBuffer s of None \<Rightarrow> [] | Some b \<Rightarrow> drop ?n b)"
  have lt: "float_less (narrow (NearClip s)) (narrow far0)"
    using assms(2,3,4) by simp
  have len: "i < length buf"
    using assms(6,8) by (simp add: buf_def)
  have nth: "buf ! i = ?m d"
    using assms(6,8,9) by (simp add: buf_def nth_append)
  have props: "(float_ge d farv \<longrightarrow> buf ! i = PosInf) \<and>
      (float_le d nearv \<longrightarrow> buf ! i = NegInf) \<and>
      (float_less nearv d \<and> float_less d farv \<longrightarrow> buf ! i = d)"
    unfolding nth assms(2,3) using mask_sample_cases [OF lt, of d] by blast
  note r = OnNewDepthFrame_result [OF assms(1,5) refl assms(6,7) buf_def, of ar format]
  have "\<exists>s' w'. OnNewDepthFrame ar s w scan width height format = Inr (s', w') \<and>
      depthBuffer s' = Some buf"
  proof (cases "saveImage s")
    case False
    with r have "OnNewDepthFrame ar s w scan width height format
        = Inr (s\<lparr>depthBuffer := Some buf\<rparr>, w)"
      by simp
    moreover have "depthBuffer (s\<lparr>depthBuffer := Some buf\<rparr>) = Some buf" by simp
    ultimately show ?thesis by blast
  next
    case True
    have three: "unat width * unat height * 3 < 2 ^ 32" using assms(5) by linarith
    obtain r0 s0 w0 where sv:
      "SaveImage_depth ar s w scan width height (ConvertPixelFormat format) = Inr (r0, s0, w0)"
      using SaveImage_depth_returns [OF three assms(6), of ar s w] by blast
    from r True have "OnNewDepthFrame ar s w scan width height format
        = Inr (s0\<lparr>depthBuffer := Some buf\<rparr>, w0)"
      by (simp add: sv)
    moreover have "depthBuffer (s0\<lparr>depthBuffer := Some buf\<rparr>) = Some buf" by simp
    ultimately show ?thesis by blast
  qed
  then show ?thesis using len props by blast
qed

text \<open>
  The scenario: the frame 0.05, 50, 150 with near 0.1 and far 100, each the nearest
  \<^verbatim>\<open>float\<close>; the buffer becomes minus infinity, 50, plus infinity.
\<close>

lemma depth1_clip:
  "FarClip depth1 world1 = Inr (Finite 100)"
  "narrow (NearClip depth1) = Finite (13421773 / 134217728)"
  "binary32 100 = Finite 100"
  by (simp_all add: FarClip_def camera_at_def NearClip_def depth1_def depth0_def world1_def
      world0_def ieee_eval)

theorem OnNewDepthFrame_range_mask_witness:
  "FarClip depth1 world1 = Inr (Finite 100) \<and>
   float_less (narrow (NearClip depth1)) (narrow (Finite 100)) \<and>
   frame0 = [Finite (13421773 / 268435456), Finite 50, Finite 150] \<and>
   (\<exists>s' w'. OnNewDepthFrame ieee_arith depth1 world1 frame0 3 1 ''R_FLOAT32'' = Inr (s', w') \<and>
      depthBuffer s' = Some [NegInf, Finite 50, PosInf])"
proof -
  note c = depth1_clip
  have lt: "float_less (narrow (NearClip depth1)) (narrow (Finite 100))"
    by (simp add: c)
  have b: "depthBuffer depth1 = None" "\<not> saveImage depth1"
    by (simp_all add: depth1_def depth0_def)
  note t = OnNewDepthFrame_range_mask [OF c(1) refl refl lt, of 3 1 frame0 _ _ ieee_arith
      "''R_FLOAT32''"]
  have t0: "\<exists>s' w' buf. OnNewDepthFrame ieee_arith depth1 world1 frame0 3 1 ''R_FLOAT32''
        = Inr (s', w') \<and>
      depthBuffer s' = Some buf \<and> 0 < length buf \<and> buf ! 0 = NegInf"
    using t [of 0 "frame0 ! 0"] b
    by (simp add: frame0_values float_le_def c) blast
  have e: "OnNewDepthFrame ieee_arith depth1 world1 frame0 3 1 ''R_FLOAT32''
      = Inr (depth1\<lparr>depthBuffer := Some [NegInf, Finite 50, PosInf]\<rparr>, world1)"
    by (subst OnNewDepthFrame_result [OF c(1), where n = 3
          and buf = "[NegInf, Finite 50, PosInf]"])
       (simp_all add: b frame0_values c mask_sample_def float_ge_def float_le_def)
  have r: "\<exists>s' w'. OnNewDepthFrame ieee_arith depth1 world1 frame0 3 1 ''R_FLOAT32''
        = Inr (s', w') \<and> depthBuffer s' = Some [NegInf, Finite 50, PosInf]"
    unfolding e by simp
  show ?thesis
    using t0 by (intro conjI c(1) lt frame0_values r)
qed

subsection \<open>Depth frames: what is saved\<close>

text \<open>
  Claim C8. While saving is enabled, the buffer \<^verbatim>\<open>OnNewDepthFrame\<close> hands to
  \<^verbatim>\<open>SaveImage\<close> is the raw scan it received: the world and the save counter after the
  frame are those that \<^verbatim>\<open>SaveImage\<close> on the raw scan produces, and the mask (with the
  clip distances narrowed to \<^verbatim>\<open>float\<close>) shows only in the sensor's own \<open>depthBuffer\<close>.
\<close>

theorem OnNewDepthFrame_saves_raw_scan:
  assumes "saveImage s"
    and "FarClip s w = Inr far0"
    and "unat width * unat height * 4 < 2 ^ 32"
    and "n = unat width * unat height"
    and "n \<le> length scan"
    and "case depthBuffer s of None \<Rightarrow> True | Some b \<Rightarrow> n \<le> length b"
  shows "\<exists>r s' w' rest.
      SaveImage_depth ar s w scan width height (ConvertPixelFormat format) = Inr (r, s', w') \<and>
      OnNewDepthFrame ar s w scan width height format =
        Inr (s'\<lparr>depthBuffer :=
                  Some (map (mask_sample (narrow (NearClip s)) (narrow far0)) (take n scan)
                        @ rest)\<rparr>, w')"
proof -
  have three: "unat width * unat height * 3 < 2 ^ 32" using assms(3) by linarith
  have "unat width * unat height \<le> length scan" using assms(4,5) by simp
  then obtain r s' w' where sv:
    "SaveImage_depth ar s w scan width height (ConvertPixelFormat format) = Inr (r, s', w')"
    using SaveImage_depth_returns [OF three, of scan ar s w] by blast
  show ?thesis
    using OnNewDepthFrame_result [OF assms(2,3,4,5,6) refl, of ar format] assms(1) sv
    by auto
qed

text \<open>
  The scenario frame with saving on, in IEEE arithmetic: the file holds the grey image
  of the raw scan (maximum 150, bytes 254, 169 and 0) while the buffer holds the masked
  samples.
\<close>

lemma frame0_saved:
  "SaveImage_depth ieee_arith depth_saver1 world1 frame0 3 1 format =
     Inr (True, depth_saver1\<lparr>saveImageCounter := saveImageCounter depth_saver1 + 1\<rparr>,
          SavePNG world1
            \<lparr>png_data = [254, 254, 254, 169, 169, 169, 0, 0, 0], png_width = 3,
             png_height = 1, png_format = RGB_INT8\<rparr>
            (joinPaths (saveImagePath depth_saver1)
               (saveImagePrefix depth_saver1 @ to_string (unat (saveImageCounter depth_saver1))
                  @ ''.png'')))"
proof -
  have e: "ensure_directory world1 (saveImagePath depth_saver1) = (True, world1)"
    by (simp add: ensure_directory_def isDirectory_def world1_def world0_def depth_saver1_def
        depth1_def depth0_def)
  have m: "max_step (Finite 150) (max_step (Finite 50)
      (max_step (Finite (13421773 / 268435456)) (Finite 0))) = Finite 150"
    by (simp add: max_step_def float_gt_def)
  have fac: "fdiv ieee_arith (Finite 255) (Finite 150) = Finite (7130317 / 4194304)"
    by (simp add: ieee_arith_def ieee_eval)
  have b: "tone ieee_arith (Finite (13421773 / 268435456)) (Finite (7130317 / 4194304)) = 254"
    "tone ieee_arith (Finite 50) (Finite (7130317 / 4194304)) = 169"
    "tone ieee_arith (Finite 150) (Finite (7130317 / 4194304)) = 0"
    by (simp_all add: tone_def ieee_arith_def ieee_eval)
  show ?thesis
    using SaveImage_depth_encodes [OF e, of 3 1 frame0 ieee_arith format]
    by (simp add: frame0_values m fac b gray_triplets_def)
qed

theorem OnNewDepthFrame_saves_raw_scan_witness:
  "saveImage depth_saver1 \<and> FarClip depth_saver1 world1 = Inr (Finite 100) \<and>
   (\<exists>s' w'. OnNewDepthFrame ieee_arith depth_saver1 world1 frame0 3 1 ''R_FLOAT32''
        = Inr (s', w') \<and>
      depthBuffer s' = Some [NegInf, Finite 50, PosInf] \<and>
      map (png_data \<circ> snd) (files w') = [[254, 254, 254, 169, 169, 169, 0, 0, 0]]) \<and>
   (\<exists>r s' w'. SaveImage_depth ieee_arith depth_saver1 world1 frame0 3 1
        (ConvertPixelFormat ''R_FLOAT32'') = Inr (r, s', w') \<and>
      map (png_data \<circ> snd) (files w') = [[254, 254, 254, 169, 169, 169, 0, 0, 0]])"
proof -
  have sv: "saveImage depth_saver1"
    by (simp add: depth_saver1_def)
  have f: "FarClip depth_saver1 world1 = Inr (Finite 100)"
    by (simp add: FarClip_def camera_at_def depth_saver1_def depth1_def depth0_def world1_def
        world0_def)
  have b: "depthBuffer depth_saver1 = None"
    "narrow (NearClip depth_saver1) = Finite (13421773 / 134217728)"
    "binary32 100 = Finite 100"
    by (simp_all add: NearClip_def depth_saver1_def depth1_def depth0_def ieee_eval)
  have w: "can_write world1 p" "files world1 = []" for p
    by (simp_all add: world1_def world0_def)
  have t: "\<exists>r s' w' rest.
      SaveImage_depth ieee_arith depth_saver1 world1 frame0 3 1
        (ConvertPixelFormat ''R_FLOAT32'') = Inr (r, s', w') \<and>
      OnNewDepthFrame ieee_arith depth_saver1 world1 frame0 3 1 ''R_FLOAT32'' =
        Inr (s'\<lparr>depthBuffer :=
                  Some (map (mask_sample (narrow (NearClip depth_saver1)) (narrow (Finite 100)))
                          (take 3 frame0) @ rest)\<rparr>, w')"
    by (rule OnNewDepthFrame_saves_raw_scan [OF sv f]) (simp_all add: b frame0_values)
  have m: "map (mask_sample (narrow (NearClip depth_saver1)) (narrow (Finite 100)))
      (take 3 frame0) = [NegInf, Finite 50, PosInf]"
    by (simp add: b frame0_values mask_sample_def float_ge_def float_le_def)
  have on: "OnNewDepthFrame ieee_arith depth_saver1 world1 frame0 3 1 ''R_FLOAT32'' =
      Inr ((depth_saver1\<lparr>saveImageCounter := saveImageCounter depth_saver1 + 1\<rparr>)
             \<lparr>depthBuffer := Some [NegInf, Finite 50, PosInf]\<rparr>,
           SavePNG world1
            \<lparr>png_data = [254, 254, 254, 169, 169, 169, 0, 0, 0], png_width = 3,
             png_height = 1, png_format = RGB_INT8\<rparr>
            (joinPaths (saveImagePath depth_saver1)
               (saveImagePrefix depth_saver1 @ to_string (unat (saveImageCounter depth_saver1))
                  @ ''.png'')))"
    by (subst OnNewDepthFrame_result [OF f, where n = 3
          and buf = "[NegInf, Finite 50, PosInf]"])
       (simp_all add: b sv frame0_values frame0_saved [unfolded frame0_values]
          mask_sample_def float_ge_def float_le_def)
  have 1: "\<exists>s' w'. OnNewDepthFrame ieee_arith depth_saver1 world1 frame0 3 1 ''R_FLOAT32''
        = Inr (s', w') \<and>
      depthBuffer s' = Some [NegInf, Finite 50, PosInf] \<and>
      map (png_data \<circ> snd) (files w') = [[254, 254, 254, 169, 169, 169, 0, 0, 0]]"
    unfolding on by (auto simp: SavePNG_def w)
  have 2: "\<exists>r s' w'. SaveImage_depth ieee_arith depth_saver1 world1 frame0 3 1
        (ConvertPixelFormat ''R_FLOAT32'') = Inr (r, s', w') \<and>
      map (png_data \<circ> snd) (files w') = [[254, 254, 254, 169, 169, 169, 0, 0, 0]]"
    unfolding frame0_saved by (auto simp: SavePNG_def w)
  show ?thesis
    using t by (intro conjI sv f 1 2)
qed

subsection \<open>Creating the camera\<close>

text \<open>
  What \<^verbatim>\<open>CreateCamera\<close> does when the test of the field of view passes and when it
  fails, given a configuration and a scene.
\<close>

lemma CreateCamera_passes:
  assumes "sdfSensor s = Some c" and "scene s = Some sc"
    and "\<not> (float_less (sdf_HorizontalFov c) (Finite 0.01)
            \<or> float_gt (sdf_HorizontalFov c) (Finite (IGN_PI * 2)))"
  shows "\<exists>s' w' cam. CreateCamera s w = Inr (True, s', w') \<and>
      infoMsg s' = fill_infoMsg (infoMsg s) c (Name s) \<and>
      camera s' = Some (length (cameras w)) \<and>
      cameras w' = cameras w @ [cam] \<and> cam_scene cam = sc \<and>
      root_children w' = root_children w @ [(sc, length (cameras w))] \<and>
      initialized s' = initialized s \<and> scene s' = scene s \<and> sdfSensor s' = sdfSensor s"
  using assms
  by (cases "sdf_PixelFormat c")
     (simp_all add: CreateCamera_def camera_noise_def Let_def ignerr_def ignwarn_def)

lemma CreateCamera_fails:
  assumes "sdfSensor s = Some c" and "scene s = Some sc"
    and "float_less (sdf_HorizontalFov c) (Finite 0.01)
          \<or> float_gt (sdf_HorizontalFov c) (Finite (IGN_PI * 2))"
  shows "\<exists>s' w' cam. CreateCamera s w = Inr (False, s', w') \<and>
      scene s' = Some sc \<and>
      camera s' = Some (length (cameras w)) \<and>
      cameras w' = cameras w @ [cam] \<and> cam_scene cam = sc \<and>
      root_children w' = root_children w"
  using assms
  by (simp add: CreateCamera_def camera_noise_def Let_def ignerr_def ignwarn_def)

lemma CreateCamera_depth_passes:
  assumes "SDF_camera d = Some e" and "elem_image e = Some im" and "scene d = Some sc"
    and "\<not> (float_less (horizontal_fov e) (Finite 0.01)
            \<or> float_gt (horizontal_fov e) (Finite (IGN_PI * 2)))"
  shows "\<exists>d' w' cam. CreateCamera_depth d w = Inr (True, d', w') \<and>
      depthCamera d' = Some (length (cameras w)) \<and>
      cameras w' = cameras w @ [cam] \<and> cam_scene cam = sc \<and>
      root_children w' = root_children w @ [(sc, length (cameras w))] \<and>
      initialized d' = initialized d \<and> scene d' = scene d"
proof -
  obtain far0 near0 where cl:
    "(case elem_clip e of None \<Rightarrow> (Finite 100, binary64 0.3)
      | Some c \<Rightarrow> (clip_far c, clip_near c)) = (far0, near0)"
    by (cases "case elem_clip e of None \<Rightarrow> (Finite 100, binary64 0.3)
                | Some c \<Rightarrow> (clip_far c, clip_near c)")
  show ?thesis
    using assms cl
    by (cases "ConvertPixelFormat (elem_format im)"; cases "elem_save e")
       (simp_all add: CreateCamera_depth_def Let_def ignerr_def)
qed

lemma CreateCamera_depth_fails:
  assumes "SDF_camera d = Some e" and "elem_image e = Some im" and "scene d = Some sc"
    and "float_less (horizontal_fov e) (Finite 0.01)
          \<or> float_gt (horizontal_fov e) (Finite (IGN_PI * 2))"
  shows "\<exists>d' w' cam. CreateCamera_depth d w = Inr (False, d', w') \<and>
      scene d' = Some sc \<and>
      depthCamera d' = Some (length (cameras w)) \<and>
      cameras w' = cameras w @ [cam] \<and> cam_scene cam = sc \<and>
      root_children w' = root_children w"
proof -
  obtain far0 near0 where cl:
    "(case elem_clip e of None \<Rightarrow> (Finite 100, binary64 0.3)
      | Some c \<Rightarrow> (clip_far c, clip_near c)) = (far0, near0)"
    by (cases "case elem_clip e of None \<Rightarrow> (Finite 100, binary64 0.3)
                | Some c \<Rightarrow> (clip_far c, clip_near c)")
  show ?thesis
    using assms cl
    by (simp add: CreateCamera_depth_def Let_def ignerr_def)
qed

text \<open>
  A field of view that is NaN is neither below 0.01 nor above two times pi: both
  functions go on, attach the camera and return true.
\<close>

lemma CreateCamera_NaN_fov:
  assumes "sdfSensor s = Some c" and "scene s = Some sc" and "sdf_HorizontalFov c = NaN"
  shows "\<exists>s' w'. CreateCamera s w = Inr (True, s', w') \<and>
      root_children w' = root_children w @ [(sc, length (cameras w))]"
  using CreateCamera_passes [OF assms(1,2), of w] assms(3) by (auto simp: float_gt_def)

lemma CreateCamera_depth_NaN_fov:
  assumes "SDF_camera d = Some e" and "elem_image e = Some im" and "scene d = Some sc"
    and "horizontal_fov e = NaN"
  shows "\<exists>d' w'. CreateCamera_depth d w = Inr (True, d', w') \<and>
      root_children w' = root_children w @ [(sc, length (cameras w))]"
  using CreateCamera_depth_passes [OF assms(1,2,3), of w] assms(4) by (auto simp: float_gt_def)

text \<open>
  Claim C1, as stated, is false on the code: the camera is created and stored in the
  sensor before the field of view is checked. With a field of view of 8 radians both
  functions return false, and the sensor holds the pointer to the new camera 0.
\<close>

theorem CreateCamera_fov_counterexample:
  "map_sum id (\<lambda>r. (fst r, camera (fst (snd r)), length (cameras (snd (snd r)))))
     (CreateCamera wide_sensor world0) = Inr (False, Some 0, 1) \<and>
   map_sum id (\<lambda>r. (fst r, depthCamera (fst (snd r)), length (cameras (snd (snd r)))))
     (CreateCamera_depth wide_depth world0) = Inr (False, Some 0, 1)"
proof -
  have "(8 :: real) > IGN_PI * 2"
    using pi_less_4 by (simp add: IGN_PI_def)
  then show ?thesis
    by (simp add: CreateCamera_def CreateCamera_depth_def camera_noise_def horizontal_fov_def
        Let_def ignerr_def float_gt_def wide_sensor_def wide_depth_def sensor0_def depth0_def
        sdf0_def elem0_def world0_def)
qed

text \<open>
  Claim C1, amended. For every configuration (a camera configuration and a scene being
  there) with a horizontal field of view in the range from 0.01 to two times pi,
  \<^verbatim>\<open>CreateCamera\<close> returns success; for every such configuration with a field of view
  below 0.01 or above two times pi it returns failure and no camera is attached to the
  scene's root.
\<close>

theorem CreateCamera_fov:
  assumes "sdfSensor s = Some c" and "scene s = Some sc"
    and "SDF_camera d = Some e" and "elem_image e = Some im" and "scene d = Some sc'"
  shows
    "(float_le (Finite 0.01) (sdf_HorizontalFov c) \<and>
      float_le (sdf_HorizontalFov c) (Finite (2 * pi)) \<longrightarrow>
        (\<exists>s' w'. CreateCamera s w = Inr (True, s', w'))) \<and>
     (float_less (sdf_HorizontalFov c) (Finite 0.01) \<or>
      float_less (Finite (2 * pi)) (sdf_HorizontalFov c) \<longrightarrow>
        (\<exists>s' w'. CreateCamera s w = Inr (False, s', w') \<and>
                 root_children w' = root_children w)) \<and>
     (float_le (Finite 0.01) (horizontal_fov e) \<and>
      float_le (horizontal_fov e) (Finite (2 * pi)) \<longrightarrow>
        (\<exists>d' w'. CreateCamera_depth d w = Inr (True, d', w'))) \<and>
     (float_less (horizontal_fov e) (Finite 0.01) \<or>
      float_less (Finite (2 * pi)) (horizontal_fov e) \<longrightarrow>
        (\<exists>d' w'. CreateCamera_depth d w = Inr (False, d', w') \<and>
                 root_children w' = root_children w))"
proof (intro conjI impI)
  assume a: "float_le (Finite 0.01) (sdf_HorizontalFov c) \<and>
      float_le (sdf_HorizontalFov c) (Finite (2 * pi))"
  have "\<not> (float_less (sdf_HorizontalFov c) (Finite 0.01)
            \<or> float_gt (sdf_HorizontalFov c) (Finite (IGN_PI * 2)))"
    using a float_less_not_le [of "sdf_HorizontalFov c" "Finite 0.01"]
      float_less_not_le [of "Finite (2 * pi)" "sdf_HorizontalFov c"]
    by (auto simp: float_gt_def IGN_PI_def mult.commute)
  from CreateCamera_passes [OF assms(1,2) this, of w]
  show "\<exists>s' w'. CreateCamera s w = Inr (True, s', w')" by blast
next
  assume "float_less (sdf_HorizontalFov c) (Finite 0.01) \<or>
      float_less (Finite (2 * pi)) (sdf_HorizontalFov c)"
  then have "float_less (sdf_HorizontalFov c) (Finite 0.01)
          \<or> float_gt (sdf_HorizontalFov c) (Finite (IGN_PI * 2))"
    by (simp add: float_gt_def IGN_PI_def mult.commute)
  from CreateCamera_fails [OF assms(1,2) this, of w]
  show "\<exists>s' w'. CreateCamera s w = Inr (False, s', w') \<and>
      root_children w' = root_children w" by blast
next
  assume a: "float_le (Finite 0.01) (horizontal_fov e) \<and>
      float_le (horizontal_fov e) (Finite (2 * pi))"
  have "\<not> (float_less (horizontal_fov e) (Finite 0.01)
            \<or> float_gt (horizontal_fov e) (Finite (IGN_PI * 2)))"
    using a float_less_not_le [of "horizontal_fov e" "Finite 0.01"]
      float_less_not_le [of "Finite (2 * pi)" "horizontal_fov e"]
    by (auto simp: float_gt_def IGN_PI_def mult.commute)
  from CreateCamera_depth_passes [OF assms(3,4,5) this, of w]
  show "\<exists>d' w'. CreateCamera_depth d w = Inr (True, d', w')" by blast
next
  assume "float_less (horizontal_fov e) (Finite 0.01) \<or>
      float_less (Finite (2 * pi)) (horizontal_fov e)"
  then have "float_less (horizontal_fov e) (Finite 0.01)
          \<or> float_gt (horizontal_fov e) (Finite (IGN_PI * 2))"
    by (simp add: float_gt_def IGN_PI_def mult.commute)
  from CreateCamera_depth_fails [OF assms(3,4,5) this, of w]
  show "\<exists>d' w'. CreateCamera_depth d w = Inr (False, d', w') \<and>
      root_children w' = root_children w" by blast
qed

text \<open>
  The scenarios: width 320, height 240 and a field of view of 1.047 succeed; a field of
  view of 8 fails with nothing attached.
\<close>

theorem CreateCamera_fov_witness:
  "sdfSensor sensor0 = Some sdf0 \<and> scene sensor0 = Some 1 \<and>
   SDF_camera depth0 = Some elem0 \<and> scene depth0 = Some 1 \<and>
   float_le (Finite 0.01) (sdf_HorizontalFov sdf0) \<and>
   float_le (sdf_HorizontalFov sdf0) (Finite (2 * pi)) \<and>
   float_le (Finite 0.01) (horizontal_fov elem0) \<and>
   float_le (horizontal_fov elem0) (Finite (2 * pi)) \<and>
   map_sum id fst (CreateCamera sensor0 world0) = Inr True \<and>
   map_sum id fst (CreateCamera_depth depth0 world0) = Inr True \<and>
   float_less (Finite (2 * pi)) (sdf_HorizontalFov (sdf0\<lparr>sdf_HorizontalFov := Finite 8\<rparr>)) \<and>
   map_sum id (\<lambda>r. (fst r, root_children (snd (snd r)))) (CreateCamera wide_sensor world0)
     = Inr (False, [])"
proof -
  have a: "sdfSensor sensor0 = Some sdf0" "scene sensor0 = Some 1"
    "SDF_camera depth0 = Some elem0" "scene depth0 = Some 1"
    "elem_image elem0 = Some \<lparr>elem_width = 3, elem_height = 1, elem_format = ''R_FLOAT32''\<rparr>"
    by (simp_all add: sensor0_def depth0_def elem0_def)
  have r: "float_le (Finite 0.01) (sdf_HorizontalFov sdf0)"
    "float_le (sdf_HorizontalFov sdf0) (Finite (2 * pi))"
    "float_le (Finite 0.01) (horizontal_fov elem0)"
    "float_le (horizontal_fov elem0) (Finite (2 * pi))"
    using pi_ge_two by (simp_all add: sdf0_def elem0_def horizontal_fov_def float_le_def)
  have b: "sdfSensor wide_sensor = Some (sdf0\<lparr>sdf_HorizontalFov := Finite 8\<rparr>)"
    "scene wide_sensor = Some 1" "root_children world0 = []"
    by (simp_all add: wide_sensor_def sensor0_def world0_def)
  have o: "float_less (Finite (2 * pi)) (sdf_HorizontalFov (sdf0\<lparr>sdf_HorizontalFov := Finite 8\<rparr>))"
    using pi_less_4 by simp
  note t1 = CreateCamera_fov [OF a(1,2,3,5,4), of world0]
  note t2 = CreateCamera_fov [OF b(1,2) a(3,5,4), of world0]
  have 1: "map_sum id fst (CreateCamera sensor0 world0) = Inr True"
    using t1 r by auto
  have 2: "map_sum id fst (CreateCamera_depth depth0 world0) = Inr True"
    using t1 r by auto
  have 3: "map_sum id (\<lambda>r. (fst r, root_children (snd (snd r))))
      (CreateCamera wide_sensor world0) = Inr (False, [])"
    using t2 o b(3) by auto
  show ?thesis
    using t1 by (intro conjI a(1,2,3,4) r 1 2 3 o)
qed

subsection \<open>Changing the scene\<close>

text \<open>
  Claim C5. \<^verbatim>\<open>SetScene\<close> with the scene that is already bound does nothing: the sensor
  (its camera pointer and its save counter included) and the world are unchanged.
\<close>

theorem SetScene_same_scene:
  "SetScene s w (scene s) = Inr (s, w) \<and> SetScene_depth d w (scene d) = Inr (d, w)"
  by (simp add: SetScene_def SetScene_depth_def)

text \<open>
  Claim C4, as stated, is false on the code. The new scene may be the null pointer, and
  then \<^verbatim>\<open>CreateCamera\<close> dereferences it: no camera is created. And the depth sensor's
  \<^verbatim>\<open>RemoveCamera\<close> leaves the old pointer in place.
\<close>

theorem SetScene_new_scene_counterexample:
  "initialized bound2 \<and> scene bound2 = Some 1 \<and> camera bound2 = Some 0 \<and>
   SetScene bound2 world2 None = Inl NullDereference \<and>
   initialized depth1 \<and> depthCamera depth1 = Some 0 \<and>
   depthCamera (RemoveCamera_depth depth1 (scene depth1)) = Some 0"
  by (simp add: SetScene_def RemoveCamera_def RemoveCamera_depth_def CreateCamera_def
      bound2_def sensor0_def depth1_def depth0_def)

text \<open>
  Claim C4, amended. For every initialized sensor with its camera configuration, a
  \<^verbatim>\<open>SetScene\<close> call with a scene that is not null and differs from the bound one creates
  exactly one new camera, against the new scene, and leaves the sensor holding the
  pointer to that camera instead of the previous one; the colour sensor resets its
  pointer to null before the camera is rebuilt.
\<close>

theorem SetScene_new_scene:
  assumes "initialized s" and "sdfSensor s = Some c" and "scene s \<noteq> Some sc"
    and "initialized d" and "SDF_camera d = Some e" and "elem_image e = Some im"
    and "scene d \<noteq> Some sc"
  shows
    "camera (RemoveCamera s (scene s)) = None \<and>
     (\<exists>r s' w' cam. CreateCamera ((RemoveCamera s (scene s))\<lparr>scene := Some sc\<rparr>) w
                       = Inr (r, s', w') \<and>
        SetScene s w (Some sc) = Inr (s', w') \<and> scene s' = Some sc \<and>
        camera s' = Some (length (cameras w)) \<and>
        cameras w' = cameras w @ [cam] \<and> cam_scene cam = sc) \<and>
     (\<exists>r d' w' cam. CreateCamera_depth ((RemoveCamera_depth d (scene d))\<lparr>scene := Some sc\<rparr>) w
                       = Inr (r, d', w') \<and>
        SetScene_depth d w (Some sc) = Inr (d', w') \<and> scene d' = Some sc \<and>
        depthCamera d' = Some (length (cameras w)) \<and>
        cameras w' = cameras w @ [cam] \<and> cam_scene cam = sc)"
proof (intro conjI)
  show "camera (RemoveCamera s (scene s)) = None"
    by (simp add: RemoveCamera_def)
next
  let ?s2 = "(RemoveCamera s (scene s))\<lparr>scene := Some sc\<rparr>"
  have p: "sdfSensor ?s2 = Some c" "scene ?s2 = Some sc" "initialized ?s2"
    using assms(1,2) by (simp_all add: RemoveCamera_def)
  have "\<exists>r s' w' cam. CreateCamera ?s2 w = Inr (r, s', w') \<and> scene s' = Some sc \<and>
      camera s' = Some (length (cameras w)) \<and> cameras w' = cameras w @ [cam] \<and>
      cam_scene cam = sc"
  proof (cases "float_less (sdf_HorizontalFov c) (Finite 0.01)
          \<or> float_gt (sdf_HorizontalFov c) (Finite (IGN_PI * 2))")
    case True
    from CreateCamera_fails [OF p(1,2) True, of w] show ?thesis
      by blast
  next
    case False
    from CreateCamera_passes [OF p(1,2) False, of w] p(2) show ?thesis
      by (metis (no_types, lifting))
  qed
  then show "\<exists>r s' w' cam. CreateCamera ?s2 w = Inr (r, s', w') \<and>
      SetScene s w (Some sc) = Inr (s', w') \<and> scene s' = Some sc \<and>
      camera s' = Some (length (cameras w)) \<and>
      cameras w' = cameras w @ [cam] \<and> cam_scene cam = sc"
    using assms(3) p(3) by (auto simp: SetScene_def Let_def)
next
  let ?d2 = "(RemoveCamera_depth d (scene d))\<lparr>scene := Some sc\<rparr>"
  have p: "SDF_camera ?d2 = Some e" "scene ?d2 = Some sc" "initialized ?d2"
    using assms(4,5) by (simp_all add: RemoveCamera_depth_def)
  have "\<exists>r d' w' cam. CreateCamera_depth ?d2 w = Inr (r, d', w') \<and> scene d' = Some sc \<and>
      depthCamera d' = Some (length (cameras w)) \<and> cameras w' = cameras w @ [cam] \<and>
      cam_scene cam = sc"
  proof (cases "float_less (horizontal_fov e) (Finite 0.01)
          \<or> float_gt (horizontal_fov e) (Finite (IGN_PI * 2))")
    case True
    from CreateCamera_depth_fails [OF p(1) assms(6) p(2) True, of w] show ?thesis
      by blast
  next
    case False
    from CreateCamera_depth_passes [OF p(1) assms(6) p(2) False, of w] p(2) show ?thesis
      by (metis (no_types, lifting))
  qed
  then show "\<exists>r d' w' cam. CreateCamera_depth ?d2 w = Inr (r, d', w') \<and>
      SetScene_depth d w (Some sc) = Inr (d', w') \<and> scene d' = Some sc \<and>
      depthCamera d' = Some (length (cameras w)) \<and>
      cameras w' = cameras w @ [cam] \<and> cam_scene cam = sc"
    using assms(7) p(3) by (auto simp: SetScene_depth_def Let_def)
qed

theorem SetScene_new_scene_witness:
  "initialized bound2 \<and> sdfSensor bound2 = Some sdf0 \<and> scene bound2 \<noteq> Some 2 \<and>
   initialized depth1 \<and> SDF_camera depth1 = Some elem0 \<and> scene depth1 \<noteq> Some 2 \<and>
   map_sum id (\<lambda>r. (scene (fst r), camera (fst r), map cam_scene (cameras (snd r))))
     (SetScene bound2 world2 (Some 2)) = Inr (Some 2, Some 1, [1, 2]) \<and>
   map_sum id (\<lambda>r. (scene (fst r), depthCamera (fst r), map cam_scene (cameras (snd r))))
     (SetScene_depth depth1 world1 (Some 2)) = Inr (Some 2, Some 1, [1, 2])"
proof -
  have a: "initialized bound2" "sdfSensor bound2 = Some sdf0" "scene bound2 \<noteq> Some 2"
    by (simp_all add: bound2_def sensor0_def)
  have b: "initialized depth1" "SDF_camera depth1 = Some elem0"
    "elem_image elem0 = Some \<lparr>elem_width = 3, elem_height = 1, elem_format = ''R_FLOAT32''\<rparr>"
    "scene depth1 \<noteq> Some 2"
    by (simp_all add: depth1_def depth0_def elem0_def)
  have w: "map cam_scene (cameras world2) = [1]" "map cam_scene (cameras world1) = [1]"
    "length (cameras world2) = 1" "length (cameras world1) = 1"
    by (simp_all add: world2_def world1_def world0_def engine_camera_def)
  note t = SetScene_new_scene [OF a b, of world2]
  note u = SetScene_new_scene [OF a b, of world1]
  have 1: "map_sum id (\<lambda>r. (scene (fst r), camera (fst r), map cam_scene (cameras (snd r))))
     (SetScene bound2 world2 (Some 2)) = Inr (Some 2, Some 1, [1, 2])"
    using t w by auto
  have 2: "map_sum id (\<lambda>r. (scene (fst r), depthCamera (fst r), map cam_scene (cameras (snd r))))
     (SetScene_depth depth1 world1 (Some 2)) = Inr (Some 2, Some 1, [1, 2])"
    using u w by auto
  show ?thesis
    using t by (intro conjI a b(1,2,4) 1 2)
qed

text \<open>The same scene again, on the bound sensors of the examples.\<close>

theorem SetScene_same_scene_witness:
  "SetScene bound2 world2 (Some 1) = Inr (bound2, world2) \<and>
   SetScene_depth depth1 world1 (Some 1) = Inr (depth1, world1)"
proof -
  have "scene bound2 = Some 1" "scene depth1 = Some 1"
    by (simp_all add: bound2_def sensor0_def depth1_def depth0_def)
  then show ?thesis
    using SetScene_same_scene [of bound2 world2 depth1]
      SetScene_same_scene [of bound2 world1 depth1] by simp
qed

subsection \<open>The camera information message\<close>

text \<open>
  On a message whose repeated fields are still empty, \<^verbatim>\<open>CreateCamera\<close> leaves five
  distortion coefficients, the nine intrinsics, the identity as rectification matrix and
  the resolution of the configuration; \<^verbatim>\<open>Update\<close> changes nothing of the message but its
  time stamp.
\<close>

lemma fill_infoMsg_fresh:
  assumes "distortion_k m = []" and "intrinsics_k m = []" and "rectification_matrix m = []"
  shows "length (distortion_k (fill_infoMsg m c name)) = 5"
    and "intrinsics_k (fill_infoMsg m c name) =
      [sdf_LensIntrinsicsFx c, 0, sdf_LensIntrinsicsCx c,
       0, sdf_LensIntrinsicsFy c, sdf_LensIntrinsicsCy c, 0, 0, 1]"
    and "rectification_matrix (fill_infoMsg m c name) = [1, 0, 0, 0, 1, 0, 0, 0, 1]"
    and "info_width (fill_infoMsg m c name) = sdf_ImageWidth c"
    and "info_height (fill_infoMsg m c name) = sdf_ImageHeight c"
  using assms by (simp_all add: fill_infoMsg_def)

lemma SaveImage_infoMsg:
  "SaveImage s w data width height format = (r, s', w') \<Longrightarrow> infoMsg s' = infoMsg s"
  by (auto simp: SaveImage_def Let_def split: prod.splits if_splits)

lemma Update_infoMsg:
  assumes "Update s w sec nsec = Inr (True, s', w')"
  shows "infoMsg s' = (infoMsg s)\<lparr>info_sec := sec, info_nsec := nsec\<rparr>"
proof -
  have i: "initialized s" using assms by (auto simp: Update_def split: if_splits)
  obtain h where h: "camera s = Some h"
    using assms i by (cases "camera s") (auto simp: Update_def)
  obtain cam where c: "camera_at w h = Inr cam"
    using assms i h by (cases "camera_at w h") (auto simp: Update_def)
  show ?thesis
    using assms i h c
    by (cases "ImageFormat cam")
       (auto simp: Update_def Let_def dest!: SaveImage_infoMsg
          split: sum.splits fault.splits prod.splits if_splits)
qed

text \<open>
  Claim C6 fails on the code at the second binding. \<^verbatim>\<open>CreateCamera\<close> appends to the
  repeated fields of the message it keeps, so after a sensor loaded with scene 1 is
  given scene 2, the message has ten distortion coefficients, eighteen intrinsics and
  an eighteen-element rectification matrix.
\<close>

theorem CameraInfo_second_binding:
  "map_sum id (\<lambda>r. (length (distortion_k (infoMsg (fst r))),
                    length (intrinsics_k (infoMsg (fst r))),
                    rectification_matrix (infoMsg (fst r))))
     (SetScene (fst loaded) (snd loaded) (Some 2))
   = Inr (10, 18, [1, 0, 0, 0, 1, 0, 0, 0, 1, 1, 0, 0, 0, 1, 0, 0, 0, 1])"
proof -
  have a: "sdfSensor sensor0 = Some sdf0" "scene sensor0 = Some 1"
    by (simp_all add: sensor0_def)
  have r: "\<not> (float_less (sdf_HorizontalFov sdf0) (Finite 0.01)
            \<or> float_gt (sdf_HorizontalFov sdf0) (Finite (IGN_PI * 2)))"
    using pi_ge_two by (simp add: sdf0_def float_gt_def IGN_PI_def)
  obtain s1 w1 where 1: "CreateCamera sensor0 world0 = Inr (True, s1, w1)"
    and i1: "infoMsg s1 = fill_infoMsg (infoMsg sensor0) sdf0 (Name sensor0)"
    and k1: "scene s1 = scene sensor0" "sdfSensor s1 = sdfSensor sensor0"
    using CreateCamera_passes [OF a r, of world0] by blast
  let ?s = "(RemoveCamera (s1\<lparr>initialized := True\<rparr>) (Some 1))\<lparr>scene := Some 2\<rparr>"
  have b: "sdfSensor ?s = Some sdf0" "scene ?s = Some 2"
    using k1 a by (simp_all add: RemoveCamera_def)
  obtain s2 w2 where 2: "CreateCamera ?s w1 = Inr (True, s2, w2)"
    and i2: "infoMsg s2 = fill_infoMsg (infoMsg ?s) sdf0 (Name ?s)"
    using CreateCamera_passes [OF b r, of w1] by blast
  have l: "loaded = (s1\<lparr>initialized := True\<rparr>, w1)"
    by (simp add: loaded_def 1)
  have "SetScene (fst loaded) (snd loaded) (Some 2) = Inr (s2, w2)"
    using k1 a 2 by (simp add: l SetScene_def RemoveCamera_def)
  moreover have "infoMsg s2 = fill_infoMsg (fill_infoMsg info0 sdf0 ''cam'') sdf0 (Name s1)"
    using i2 i1 1 by (simp add: RemoveCamera_def sensor0_def)
  ultimately show ?thesis
    by (simp add: fill_infoMsg_def info0_def)
qed

subsection \<open>Exceptions of callbacks\<close>

lemma signal_cases:
  "signal cbs m = (if \<exists>cb \<in> set cbs. cb m then Inl Exception else Inr ())"
  by (induction cbs) simp_all

lemma SaveImage_published:
  "SaveImage s w data width height format = (r, s', w') \<Longrightarrow>
   published w' = published w \<and> console w' = console w"
  by (auto simp: SaveImage_def ensure_directory_def createDirectories_def SavePNG_def Let_def
      split: prod.splits if_splits)

lemma Update_publishes:
  assumes "initialized s" and "camera s = Some h" and "camera_at w h = Inr cam"
  shows "\<exists>s' w' msg. Update s w sec nsec = Inr (True, s', w') \<and>
      published w' = published w @ [msg] \<and> msg_data msg = Bytes (capture w h) \<and>
      ((\<exists>cb \<in> set (imageEvent s). cb msg) \<longrightarrow>
         ''Exception thrown in an image callback.'' \<in> set (console w'))"
proof -
  obtain fmt w1 where f:
    "(case ImageFormat cam of
        PF_R8G8B8 \<Rightarrow> (RGB_INT8, RGB_INT8, w)
      | _ \<Rightarrow> (UNKNOWN_PIXEL_FORMAT, UNKNOWN_PIXEL_FORMAT, ignerr w ''Unsupported pixel format''))
     = (fmt, fmt, w1)" and p1: "published w1 = published w"
    by (cases "ImageFormat cam") (simp_all add: ignerr_def)
  define s2 where
    "s2 = s\<lparr>image := capture w h, infoMsg := (infoMsg s)\<lparr>info_sec := sec, info_nsec := nsec\<rparr>\<rparr>"
  define msg where
    "msg = \<lparr>msg_width = ImageWidth cam, msg_height = ImageHeight cam,
            msg_step = ImageWidth cam * BytesPerPixel (ImageFormat cam),
            msg_pixel_format = fmt, msg_pixel_format_type = fmt,
            msg_sec = sec, msg_nsec = nsec, msg_frame_id = [Name s],
            msg_data = Bytes (capture w h)\<rparr>"
  define w3 where
    "w3 = w1\<lparr>published := published w1 @ [msg],
             info_published := info_published w1 @ [infoMsg s2]\<rparr>"
  define w4 where
    "w4 = (if \<exists>cb \<in> set (imageEvent s). cb msg
           then ignerr w3 ''Exception thrown in an image callback.'' else w3)"
  have p4: "published w4 = published w @ [msg]"
    by (simp add: w4_def w3_def ignerr_def p1)
  have c4: "(\<exists>cb \<in> set (imageEvent s). cb msg) \<longrightarrow>
      ''Exception thrown in an image callback.'' \<in> set (console w4)"
    by (simp add: w4_def ignerr_def)
  have u: "Update s w sec nsec =
      (if saveImage s
       then (let (r, s3, w5) = SaveImage s2 w4 (capture w h) (ImageWidth cam) (ImageHeight cam) fmt
             in Inr (True, s3, w5))
       else Inr (True, s2, w4))"
    using assms f
    by (auto simp: Update_def Let_def signal_cases s2_def msg_def w3_def w4_def)
  show ?thesis
  proof (cases "saveImage s")
    case False
    then show ?thesis using u p4 c4 msg_def by (intro exI [of _ s2] exI [of _ w4] exI [of _ msg]) simp
  next
    case True
    obtain r s3 w5 where sv:
      "SaveImage s2 w4 (capture w h) (ImageWidth cam) (ImageHeight cam) fmt = (r, s3, w5)"
      by (cases "SaveImage s2 w4 (capture w h) (ImageWidth cam) (ImageHeight cam) fmt")
    note q = SaveImage_published [OF sv]
    show ?thesis
      using True u sv p4 c4 q msg_def
      by (intro exI [of _ s3] exI [of _ w5] exI [of _ msg]) simp
  qed
qed

lemma Update_depth_publishes:
  assumes "initialized d" and "depthCamera d = Some h"
    and "depthCamera_Update ar d w h = Inr (d1, w1)"
    and "camera_at w1 h = Inr cam" and "depthBuffer d1 = Some buf"
  shows "\<exists>w' msg. Update_depth ar d w sec nsec = Inr (True, d1, w') \<and>
      published w' = published w1 @ [msg] \<and> msg_data msg = Floats buf \<and>
      ((\<exists>cb \<in> set (imageEvent d1). cb msg) \<longrightarrow>
         ''Exception thrown in an image callback.'' \<in> set (console w'))"
proof -
  define msg where
    "msg = \<lparr>msg_width = ImageWidth cam, msg_height = ImageHeight cam,
            msg_step = ImageWidth cam * BytesPerPixel (ImageFormat cam),
            msg_pixel_format = R_FLOAT32, msg_pixel_format_type = UNKNOWN_PIXEL_FORMAT,
            msg_sec = sec, msg_nsec = nsec, msg_frame_id = [],
            msg_data = Floats buf\<rparr>"
  define w2 where "w2 = w1\<lparr>published := published w1 @ [msg]\<rparr>"
  define w3 where
    "w3 = (if \<exists>cb \<in> set (imageEvent d1). cb msg
           then ignerr w2 ''Exception thrown in an image callback.'' else w2)"
  have "Update_depth ar d w sec nsec = Inr (True, d1, w3)"
    using assms by (auto simp: Update_depth_def Let_def signal_cases msg_def w2_def w3_def)
  moreover have "published w3 = published w1 @ [msg]"
    by (simp add: w3_def w2_def ignerr_def)
  moreover have "msg_data msg = Floats buf"
    by (simp add: msg_def)
  moreover have "(\<exists>cb \<in> set (imageEvent d1). cb msg) \<longrightarrow>
      ''Exception thrown in an image callback.'' \<in> set (console w3)"
    by (simp add: w3_def ignerr_def)
  ultimately show ?thesis by blast
qed

text \<open>
  Claim C7. Whatever the registered callbacks do, an \<^verbatim>\<open>Update\<close> that reaches the publish
  step returns true: an exception thrown by a callback is caught inside \<^verbatim>\<open>Update\<close> and
  written to the console, it does not leave \<^verbatim>\<open>Update\<close>, and the message stays published.
\<close>

theorem Update_callback_exception:
  fixes s :: CameraSensorPrivate and d :: DepthCameraSensorPrivate
  shows
    "(initialized s \<and> camera s = Some h \<and> camera_at w h = Inr cam \<longrightarrow>
        (\<exists>s' w' msg. Update s w sec nsec = Inr (True, s', w') \<and>
           published w' = published w @ [msg] \<and> msg_data msg = Bytes (capture w h) \<and>
           ((\<exists>cb \<in> set (imageEvent s). cb msg) \<longrightarrow>
              ''Exception thrown in an image callback.'' \<in> set (console w')))) \<and>
     (initialized d \<and> depthCamera d = Some h' \<and>
      depthCamera_Update ar d w h' = Inr (d1, w1) \<and>
      camera_at w1 h' = Inr cam' \<and> depthBuffer d1 = Some buf \<longrightarrow>
        (\<exists>w' msg. Update_depth ar d w sec nsec = Inr (True, d1, w') \<and>
           published w' = published w1 @ [msg] \<and> msg_data msg = Floats buf \<and>
           ((\<exists>cb \<in> set (imageEvent d1). cb msg) \<longrightarrow>
              ''Exception thrown in an image callback.'' \<in> set (console w'))))"
  using Update_publishes [of s h w cam sec nsec]
    Update_depth_publishes [of d h' ar w d1 w1 cam' buf sec nsec]
  by blast

text \<open>
  A colour sensor and a depth sensor whose first callback throws: both updates return
  true, the message is published and the console has the line of the handler.
\<close>

theorem Update_callback_exception_witness:
  "initialized thrower2 \<and> camera thrower2 = Some 0 \<and>
   camera_at world2 0 = Inr (cameras world2 ! 0) \<and>
   (\<exists>s' w' msg. Update thrower2 world2 5 0 = Inr (True, s', w') \<and>
      published w' = published world2 @ [msg] \<and>
      ''Exception thrown in an image callback.'' \<in> set (console w')) \<and>
   initialized depth_thrower1 \<and> depthCamera depth_thrower1 = Some 0 \<and>
   depthCamera_Update ieee_arith depth_thrower1 world1 0
     = Inr (depth_thrower1\<lparr>depthBuffer := Some [NegInf, Finite 50, PosInf]\<rparr>, world1) \<and>
   camera_at world1 0 = Inr (cameras world1 ! 0) \<and>
   (\<exists>w' msg. Update_depth ieee_arith depth_thrower1 world1 5 0
        = Inr (True, depth_thrower1\<lparr>depthBuffer := Some [NegInf, Finite 50, PosInf]\<rparr>, w') \<and>
      published w' = published world1 @ [msg] \<and>
      msg_data msg = Floats [NegInf, Finite 50, PosInf] \<and>
      ''Exception thrown in an image callback.'' \<in> set (console w'))"
proof -
  let ?d1 = "depth_thrower1\<lparr>depthBuffer := Some [NegInf, Finite 50, PosInf]\<rparr>"
  have a: "initialized thrower2" "camera thrower2 = Some 0"
    by (simp_all add: thrower2_def bound2_def)
  have b: "initialized depth_thrower1" "depthCamera depth_thrower1 = Some 0"
    by (simp_all add: depth_thrower1_def depth1_def)
  have c: "camera_at world2 0 = Inr (cameras world2 ! 0)"
    "camera_at world1 0 = Inr (cameras world1 ! 0)"
    by (simp_all add: camera_at_def world2_def world1_def)
  have th: "\<exists>cb \<in> set (imageEvent thrower2). cb m"
    "\<exists>cb \<in> set (imageEvent ?d1). cb m" for m
    by (simp_all add: thrower2_def depth_thrower1_def)
  have f: "FarClip depth_thrower1 world1 = Inr (Finite 100)"
    by (simp add: FarClip_def camera_at_def depth_thrower1_def depth1_def depth0_def world1_def
        world0_def)
  have n: "narrow (NearClip depth_thrower1) = Finite (13421773 / 134217728)"
    "binary32 100 = Finite 100"
    "depthBuffer depth_thrower1 = None" "\<not> saveImage depth_thrower1"
    "connection depth_thrower1 = Some 0"
    by (simp_all add: NearClip_def depth_thrower1_def depth1_def depth0_def ieee_eval)
  have fr: "depth_frame world1 0 = (frame0, ''R_FLOAT32'')"
    "ImageWidth (cameras world1 ! 0) = 3" "ImageHeight (cameras world1 ! 0) = 1"
    by (simp_all add: world1_def world0_def)
  have on: "OnNewDepthFrame ieee_arith depth_thrower1 world1 frame0 3 1 ''R_FLOAT32''
      = Inr (?d1, world1)"
    by (subst OnNewDepthFrame_result [OF f, where n = 3
          and buf = "[NegInf, Finite 50, PosInf]"])
       (simp_all add: n frame0_values mask_sample_def float_ge_def float_le_def)
  have u: "depthCamera_Update ieee_arith depth_thrower1 world1 0 = Inr (?d1, world1)"
    by (simp add: depthCamera_Update_def c(2) n fr on)
  have db: "depthBuffer ?d1 = Some [NegInf, Finite 50, PosInf]"
    by simp
  note t = Update_callback_exception [of thrower2 0 world2 "cameras world2 ! 0" 5 0
      depth_thrower1 0 ieee_arith ?d1 world1 "cameras world1 ! 0"
      "[NegInf, Finite 50, PosInf]"]
  have 1: "\<exists>s' w' msg. Update thrower2 world2 5 0 = Inr (True, s', w') \<and>
      published w' = published world2 @ [msg] \<and>
      ''Exception thrown in an image callback.'' \<in> set (console w')"
    using t a c(1) th(1) by blast
  have 2: "\<exists>w' msg. Update_depth ieee_arith depth_thrower1 world1 5 0 = Inr (True, ?d1, w') \<and>
      published w' = published world1 @ [msg] \<and>
      msg_data msg = Floats [NegInf, Finite 50, PosInf] \<and>
      ''Exception thrown in an image callback.'' \<in> set (console w')"
    using Update_callback_exception [of thrower2 0 world1 "cameras world2 ! 0" 5 0
      depth_thrower1 0 ieee_arith ?d1 world1 "cameras world1 ! 0"
      "[NegInf, Finite 50, PosInf]"] b u c(2) db th(2) by blast
  show ?thesis
    by (intro conjI a b c u 1 2)
qed

end
